theory Spec2Isabelle
  imports Complex_Main "HOL-Library.Multiset"
begin

section \<open>Sizing policy\<close>

text \<open>
  The four spacing presets of \<^verbatim>\<open>SPACING_CONFIG\<close> and the record of numbers each of them
  stands for.
\<close>

datatype SpacingPreset = Compact | Normal | Comfortable | Loose

record SpacingConfig =
  padding :: real
  margin :: real
  startRadius :: real
  spiralStep :: real

fun SPACING_CONFIG :: "SpacingPreset \<Rightarrow> SpacingConfig" where
  "SPACING_CONFIG Compact =
     \<lparr>padding = 3, margin = 5, startRadius = 1, spiralStep = 1.5\<rparr>"
| "SPACING_CONFIG Normal =
     \<lparr>padding = 12, margin = 12, startRadius = 5, spiralStep = 4\<rparr>"
| "SPACING_CONFIG Comfortable =
     \<lparr>padding = 22, margin = 18, startRadius = 12, spiralStep = 7\<rparr>"
| "SPACING_CONFIG Loose =
     \<lparr>padding = 35, margin = 25, startRadius = 20, spiralStep = 10\<rparr>"

text \<open>
  \<^verbatim>\<open>getAutoSpacing(wordCount, isMobile)\<close>. The callers pass \<^verbatim>\<open>words.length\<close>, a natural
  number. The preset chosen is kept apart from its numbers, so that buckets can be told
  apart by name.
\<close>

definition getAutoSpacingPreset :: "nat \<Rightarrow> bool \<Rightarrow> SpacingPreset" where
  "getAutoSpacingPreset wordCount isMobile =
     (if isMobile then
        (if wordCount \<le> 10 then Comfortable
         else if wordCount \<le> 20 then Normal
         else Compact)
      else if wordCount \<le> 10 then Loose
      else if wordCount \<le> 20 then Comfortable
      else if wordCount \<le> 40 then Normal
      else Compact)"

definition getAutoSpacing :: "nat \<Rightarrow> bool \<Rightarrow> SpacingConfig" where
  "getAutoSpacing wordCount isMobile = SPACING_CONFIG (getAutoSpacingPreset wordCount isMobile)"

text \<open>The \<^verbatim>\<open>{min, max}\<close> object returned by \<^verbatim>\<open>getAutoFontSizes\<close>.\<close>

record FontRange =
  min_size :: int
  max_size :: int

definition getAutoFontSizes :: "nat \<Rightarrow> bool \<Rightarrow> FontRange" where
  "getAutoFontSizes wordCount isMobile =
     (if isMobile then
        (if wordCount \<le> 10 then \<lparr>min_size = 14, max_size = 32\<rparr>
         else if wordCount \<le> 20 then \<lparr>min_size = 12, max_size = 26\<rparr>
         else if wordCount \<le> 40 then \<lparr>min_size = 10, max_size = 20\<rparr>
         else if wordCount \<le> 70 then \<lparr>min_size = 9, max_size = 16\<rparr>
         else \<lparr>min_size = 8, max_size = 14\<rparr>)
      else if wordCount \<le> 10 then \<lparr>min_size = 20, max_size = 56\<rparr>
      else if wordCount \<le> 20 then \<lparr>min_size = 16, max_size = 40\<rparr>
      else if wordCount \<le> 40 then \<lparr>min_size = 14, max_size = 32\<rparr>
      else if wordCount \<le> 70 then \<lparr>min_size = 12, max_size = 28\<rparr>
      else \<lparr>min_size = 10, max_size = 22\<rparr>)"

text \<open>
  The bucket of a word count as the specification words it: thresholds
  \<open>\<le>10\<close>, \<open>\<le>20\<close>, \<open>\<le>40\<close>, \<open>\<le>70\<close>, \<open>>70\<close>. The code's own buckets for the spacing
  profile, read off \<^verbatim>\<open>getAutoSpacing\<close>, follow: four on a wide surface, three on a
  compact one.
\<close>

definition spec_bucket :: "nat \<Rightarrow> nat" where
  "spec_bucket n =
     (if n \<le> 10 then 0 else if n \<le> 20 then 1 else if n \<le> 40 then 2
      else if n \<le> 70 then 3 else 4)"

definition spacing_bucket :: "bool \<Rightarrow> nat \<Rightarrow> nat" where
  "spacing_bucket isMobile n =
     (if isMobile then (if n \<le> 10 then 0 else if n \<le> 20 then 1 else 2)
      else (if n \<le> 10 then 0 else if n \<le> 20 then 1 else if n \<le> 40 then 2 else 3))"

section \<open>Font size of a label\<close>

text \<open>
  The font size computed in the \<^verbatim>\<open>forEach\<close> of \<^verbatim>\<open>renderWords\<close>. \<open>r\<close> is the value
  \<^verbatim>\<open>Math.random()\<close> returned for this label; the sizes are the integers the settings tab
  stores (\<^verbatim>\<open>parseInt\<close>) or the automatic table returns.
\<close>

definition labelFontSize :: "bool \<Rightarrow> real \<Rightarrow> int \<Rightarrow> int \<Rightarrow> int" where
  "labelFontSize isCentered r minFontSize maxFontSize =
     (if isCentered then \<lfloor>real_of_int (maxFontSize + minFontSize) / 2 + 10\<rfloor>
      else \<lfloor>r * real_of_int (maxFontSize - minFontSize + 1)\<rfloor> + minFontSize)"

section \<open>Placed rectangles and the overlap test\<close>

text \<open>
  A rotation is one of the numbers of the \<^verbatim>\<open>rotations\<close> array, or \<^verbatim>\<open>undefined\<close> (\<open>None\<close>)
  when the array was read out of range.
\<close>

record PlacedRect =
  centerX :: real
  centerY :: real
  width :: real
  height :: real
  rotation :: "int option"

text \<open>\<^verbatim>\<open>Math.abs(rotation) === 90\<close>; it is false for \<^verbatim>\<open>undefined\<close>.\<close>

definition isQuarterTurn :: "int option \<Rightarrow> bool" where
  "isQuarterTurn rot = (case rot of None \<Rightarrow> False | Some d \<Rightarrow> \<bar>d\<bar> = 90)"

definition neededWidth :: "PlacedRect \<Rightarrow> real" where
  "neededWidth r = (if isQuarterTurn (rotation r) then height r else width r)"

definition neededHeight :: "PlacedRect \<Rightarrow> real" where
  "neededHeight r = (if isQuarterTurn (rotation r) then width r else height r)"

definition checkOverlap :: "real \<Rightarrow> PlacedRect \<Rightarrow> PlacedRect \<Rightarrow> bool" where
  "checkOverlap pad rect1 rect2 =
     (let w1 = neededWidth rect1; h1 = neededHeight rect1;
          w2 = neededWidth rect2; h2 = neededHeight rect2;
          left1 = centerX rect1 - w1 / 2 - pad;
          right1 = centerX rect1 + w1 / 2 + pad;
          top1 = centerY rect1 - h1 / 2 - pad;
          bottom1 = centerY rect1 + h1 / 2 + pad;
          left2 = centerX rect2 - w2 / 2 - pad;
          right2 = centerX rect2 + w2 / 2 + pad;
          top2 = centerY rect2 - h2 / 2 - pad;
          bottom2 = centerY rect2 + h2 / 2 + pad
      in \<not> (right1 < left2 \<or> left1 > right2 \<or> bottom1 < top2 \<or> top1 > bottom2))"

section \<open>Strings and the casing transform\<close>

text \<open>
  A string of the program is the list of its UTF-16 code units, each a natural number;
  \<open>js\<close> turns a literal of ASCII characters into such a list. \<^verbatim>\<open>toUpperCase\<close> and
  \<^verbatim>\<open>toLowerCase\<close> are modelled on the ASCII letters and on the capital I with a dot above
  (U+0130), whose lower case is the two code units of \<open>i\<close> and of the combining dot above
  (U+0307); every other code unit is left alone. So the model agrees with the host's
  functions on ASCII text, which \<open>asciiText\<close> singles out, and on U+0130 and U+0307.
\<close>

type_synonym codeUnit = nat

type_synonym jsString = "codeUnit list"

definition js :: "string \<Rightarrow> jsString" where
  "js s = map of_char s"

definition asciiText :: "jsString \<Rightarrow> bool" where
  "asciiText s = list_all (\<lambda>c. c < 128) s"

definition upperLetter :: "codeUnit \<Rightarrow> codeUnit" where
  "upperLetter c = (if 97 \<le> c \<and> c \<le> 122 then c - 32 else c)"

definition lowerLetter :: "codeUnit \<Rightarrow> codeUnit" where
  "lowerLetter c = (if 65 \<le> c \<and> c \<le> 90 then c + 32 else c)"

definition toUpperCase :: "jsString \<Rightarrow> jsString" where
  "toUpperCase s = map upperLetter s"

definition toLowerCase :: "jsString \<Rightarrow> jsString" where
  "toLowerCase s = concat (map (\<lambda>c. if c = 304 then [105, 775] else [lowerLetter c]) s)"

text \<open>
  \<^verbatim>\<open>s.split(sep)\<close>: the pieces of \<open>s\<close> between the successive occurrences of \<open>sep\<close>, found
  from the left. An empty separator splits into single code units.
\<close>

function split :: "jsString \<Rightarrow> jsString \<Rightarrow> jsString list" where
  "split sep [] = (if sep = [] then [] else [[]])"
| "split sep (c # cs) =
     (if sep = [] then map (\<lambda>x. [x]) (c # cs)
      else if take (length sep) (c # cs) = sep
        then [] # split sep (drop (length sep) (c # cs))
      else (case split sep cs of [] \<Rightarrow> [[c]] | t # ts \<Rightarrow> (c # t) # ts))"
  by pat_completeness auto
termination
  by (relation "measure (\<lambda>(sep, s). length s)") (auto simp: Suc_le_eq)

text \<open>\<^verbatim>\<open>xs.join(sep)\<close>.\<close>

fun join :: "jsString \<Rightarrow> jsString list \<Rightarrow> jsString" where
  "join sep [] = []"
| "join sep [x] = x"
| "join sep (x # y # ys) = x @ sep @ join sep (y # ys)"

text \<open>
  \<^verbatim>\<open>s.trim()\<close> removes the white space and the line terminators of the language at both
  ends: tab, line feed, vertical tab, form feed, carriage return, space, the no-break
  space (U+00A0), the byte order mark (U+FEFF), the line and paragraph separators
  (U+2028, U+2029) and the other space separators of Unicode (U+1680, U+2000 to U+200A,
  U+202F, U+205F, U+3000).
\<close>

definition isWhitespace :: "codeUnit \<Rightarrow> bool" where
  "isWhitespace c =
     ((9 \<le> c \<and> c \<le> 13) \<or> c = 32 \<or> c = 160 \<or> c = 5760 \<or> (8192 \<le> c \<and> c \<le> 8202)
      \<or> c = 8232 \<or> c = 8233 \<or> c = 8239 \<or> c = 8287 \<or> c = 12288 \<or> c = 65279)"

definition trim :: "jsString \<Rightarrow> jsString" where
  "trim s = rev (dropWhile isWhitespace (rev (dropWhile isWhitespace s)))"

datatype Casing = AsIs | Uppercase | Lowercase | TitleCase

definition smallWords :: "jsString list" where
  "smallWords = map js [''a'', ''an'', ''and'', ''as'', ''at'', ''but'', ''by'', ''for'', ''in'',
     ''of'', ''on'', ''or'', ''the'', ''to'', ''with'']"

text \<open>
  \<^verbatim>\<open>applyCasing(text, casing)\<close>. \<^verbatim>\<open>charAt(0)\<close> is \<open>take 1\<close> and \<^verbatim>\<open>slice(1)\<close> is \<open>drop 1\<close>; the
  callback of \<^verbatim>\<open>map\<close> receives the word and its index.
\<close>

fun applyCasing :: "jsString \<Rightarrow> Casing \<Rightarrow> jsString" where
  "applyCasing text Uppercase = toUpperCase text"
| "applyCasing text Lowercase = toLowerCase text"
| "applyCasing text TitleCase =
     (let words = split (js '' '') (toLowerCase text) in
      if length words = 1 then toUpperCase (take 1 text) @ toLowerCase (drop 1 text)
      else join (js '' '')
        (map (\<lambda>(index, word).
                if index = 0 \<or> index = length words - 1 \<or> word \<notin> set smallWords
                then toUpperCase (take 1 word) @ drop 1 word
                else word)
             (enumerate 0 words)))"
| "applyCasing text AsIs = text"

text \<open>
  What the specification calls an already title-cased token: its first code unit is not
  a lower-case letter and none of the others is an upper-case letter.
\<close>

definition titleCased :: "jsString \<Rightarrow> bool" where
  "titleCased t =
     (list_all (\<lambda>c. \<not> (97 \<le> c \<and> c \<le> 122)) (take 1 t)
      \<and> list_all (\<lambda>c. \<not> (65 \<le> c \<and> c \<le> 90)) (drop 1 t))"

section \<open>Settings, host and the values fixed by \<^verbatim>\<open>renderWordCloud\<close>\<close>

text \<open>
  The settings. The colors of the palette are handed on to the style of a span and never
  looked into, so they stay literals.
\<close>

record WordCloudSettings =
  minFontSize :: int
  maxFontSize :: int
  colorPalette :: "string list"
  separator :: jsString
  spacing :: SpacingPreset
  autoFontSize :: bool
  autoSpacing :: bool
  casing :: Casing

definition DEFAULT_SETTINGS :: WordCloudSettings where
  "DEFAULT_SETTINGS =
     \<lparr>minFontSize = 12, maxFontSize = 48,
      colorPalette = [''#0066cc'', ''#cc6600'', ''#cc0066'', ''#6600cc'', ''#00cc66''],
      separator = js '','', spacing = Normal, autoFontSize = True, autoSpacing = True,
      casing = AsIs\<rparr>"

text \<open>
  What the code reads from its surroundings: the container's \<^verbatim>\<open>offsetWidth\<close>, the
  window's \<^verbatim>\<open>innerWidth\<close> (\<open>None\<close> without a window), the canvas context's
  \<^verbatim>\<open>measureText(word).width\<close> at the bold font of a given size (\<open>None\<close> when no context
  can be had), and the random source: the result of \<^verbatim>\<open>sort(() => Math.random() - 0.5)\<close>
  on a list, and the values of \<^verbatim>\<open>Math.random()\<close> drawn for the size, color, rotation and
  start angle of the label at a given position and for the first focus word.
\<close>

record Host =
  offsetWidth :: int
  innerWidth :: "int option"
  measureText :: "(jsString \<Rightarrow> int \<Rightarrow> real) option"
  shuffle :: "jsString list \<Rightarrow> jsString list"
  randomSize :: "nat \<Rightarrow> real"
  randomColor :: "nat \<Rightarrow> real"
  randomRotation :: "nat \<Rightarrow> real"
  randomAngle :: "nat \<Rightarrow> real"
  randomFocus :: real

definition getContainerWidth :: "Host \<Rightarrow> int" where
  "getContainerWidth h =
     (if offsetWidth h > 0 then offsetWidth h
      else case innerWidth h of Some iw \<Rightarrow> min (iw - 40) 700 | None \<Rightarrow> 700)"

text \<open>
  The variables \<^verbatim>\<open>renderWords\<close> closes over: \<^verbatim>\<open>words\<close>, \<^verbatim>\<open>colors\<close>, \<^verbatim>\<open>containerWidth\<close>,
  \<^verbatim>\<open>containerHeight\<close>, \<^verbatim>\<open>minFontSize\<close>, \<^verbatim>\<open>maxFontSize\<close> and \<^verbatim>\<open>spacingConfig\<close>.
\<close>

record Cloud =
  c_words :: "jsString list"
  c_colors :: "string list"
  c_containerWidth :: int
  c_containerHeight :: int
  c_minFontSize :: int
  c_maxFontSize :: int
  c_spacingConfig :: SpacingConfig

definition effectiveSeparator :: "WordCloudSettings \<Rightarrow> jsString" where
  "effectiveSeparator settings =
     (if separator settings = [] then js '','' else separator settings)"

definition rawWords :: "WordCloudSettings \<Rightarrow> jsString \<Rightarrow> jsString list" where
  "rawWords settings source =
     filter (\<lambda>w. length w > 0) (map trim (split (effectiveSeparator settings) source))"

definition parseWords :: "WordCloudSettings \<Rightarrow> jsString \<Rightarrow> jsString list" where
  "parseWords settings source =
     map (\<lambda>w. applyCasing w (casing settings)) (rawWords settings source)"

definition makeCloud :: "WordCloudSettings \<Rightarrow> Host \<Rightarrow> jsString list \<Rightarrow> Cloud" where
  "makeCloud settings h ws =
     (let colors = (if length (colorPalette settings) > 0 then colorPalette settings
                    else colorPalette DEFAULT_SETTINGS);
          containerWidth = getContainerWidth h;
          isMobile = (containerWidth < 500);
          autoSizes = getAutoFontSizes (length ws) isMobile
      in \<lparr>c_words = ws, c_colors = colors, c_containerWidth = containerWidth,
          c_containerHeight = (if isMobile then 400 else 500),
          c_minFontSize = (if autoFontSize settings then min_size autoSizes
                           else minFontSize settings),
          c_maxFontSize = (if autoFontSize settings then max_size autoSizes
                           else maxFontSize settings),
          c_spacingConfig = (if autoSpacing settings then getAutoSpacing (length ws) isMobile
                             else SPACING_CONFIG (spacing settings))\<rparr>)"

section \<open>Label generation\<close>

record WordData =
  w_width :: real
  w_height :: real
  w_fontSize :: int
  w_color :: "string option"
  w_rotation :: "int option"
  w_word :: jsString
  w_isCentered :: bool

text \<open>
  \<^verbatim>\<open>xs[Math.floor(r * xs.length)]\<close>; \<open>None\<close> is \<^verbatim>\<open>undefined\<close>, the value of a read out of
  range.
\<close>

definition pick :: "'a list \<Rightarrow> real \<Rightarrow> 'a option" where
  "pick xs r =
     (let i = \<lfloor>r * real (length xs)\<rfloor>
      in if 0 \<le> i \<and> nat i < length xs then Some (xs ! nat i) else None)"

text \<open>\<^verbatim>\<open>if (centeredWord)\<close>: neither \<^verbatim>\<open>null\<close> nor the empty string.\<close>

definition truthy :: "jsString option \<Rightarrow> bool" where
  "truthy centeredWord = (case centeredWord of None \<Rightarrow> False | Some c \<Rightarrow> c \<noteq> [])"

definition shuffledWords :: "Host \<Rightarrow> Cloud \<Rightarrow> jsString option \<Rightarrow> jsString list" where
  "shuffledWords h cl centeredWord =
     (case centeredWord of
        None \<Rightarrow> shuffle h (c_words cl)
      | Some c \<Rightarrow>
          if c \<noteq> [] then c # shuffle h (filter (\<lambda>w. w \<noteq> c) (c_words cl))
          else shuffle h (c_words cl))"

text \<open>
  The measured width of a label: from the canvas when there is one, else the
  approximation by the number of code units. The two \<^verbatim>\<open>forEach\<close> bodies of the source
  differ in this width only.
\<close>

definition measuredWidth :: "Host \<Rightarrow> jsString \<Rightarrow> int \<Rightarrow> real" where
  "measuredWidth h w fontSize =
     (case measureText h of
        None \<Rightarrow> real_of_int \<lceil>real (length w) * real_of_int fontSize * 0.6\<rceil> + 8
      | Some m \<Rightarrow> real_of_int \<lceil>m w fontSize\<rceil> + 8)"

definition makeWordData ::
  "Host \<Rightarrow> Cloud \<Rightarrow> jsString option \<Rightarrow> nat \<times> jsString \<Rightarrow> WordData" where
  "makeWordData h cl centeredWord iw =
     (let i = fst iw; w = snd iw;
          isCentered = (centeredWord = Some w);
          fontSize = labelFontSize isCentered (randomSize h i)
                       (c_minFontSize cl) (c_maxFontSize cl);
          color = pick (c_colors cl) (randomColor h i);
          rotations = (if isCentered then [0] else [0, 0, 0, 0, 90, - 90]);
          rot = pick rotations (randomRotation h i)
      in \<lparr>w_width = measuredWidth h w fontSize, w_height = real_of_int fontSize + 8,
          w_fontSize = fontSize, w_color = color, w_rotation = rot, w_word = w,
          w_isCentered = isCentered\<rparr>)"

definition tempElements :: "Host \<Rightarrow> Cloud \<Rightarrow> jsString option \<Rightarrow> WordData list" where
  "tempElements h cl centeredWord =
     map (makeWordData h cl centeredWord) (enumerate 0 (shuffledWords h cl centeredWord))"

section \<open>Placement\<close>

definition maxAttempts :: nat where
  "maxAttempts = 20000"

definition angleStep :: real where
  "angleStep = 0.08"

definition surfaceCenterX :: "Cloud \<Rightarrow> real" where
  "surfaceCenterX cl = real_of_int (c_containerWidth cl) / 2"

definition surfaceCenterY :: "Cloud \<Rightarrow> real" where
  "surfaceCenterY cl = real_of_int (c_containerHeight cl) / 2"

definition maxRadius :: "Cloud \<Rightarrow> real" where
  "maxRadius cl = real_of_int (max (c_containerWidth cl) (c_containerHeight cl)) * 2"

text \<open>The growth of the radius in one turn of the loop.\<close>

definition radiusStep :: "Cloud \<Rightarrow> real" where
  "radiusStep cl = spiralStep (c_spacingConfig cl) * (angleStep / (2 * pi))"

text \<open>\<^verbatim>\<open>testRect\<close> at the current radius and angle.\<close>

definition testRect :: "Cloud \<Rightarrow> WordData \<Rightarrow> real \<Rightarrow> real \<Rightarrow> PlacedRect" where
  "testRect cl temp spiralRadius angle =
     \<lparr>centerX = surfaceCenterX cl + spiralRadius * cos angle,
      centerY = surfaceCenterY cl + spiralRadius * sin angle,
      width = w_width temp, height = w_height temp, rotation = w_rotation temp\<rparr>"

text \<open>The test on the margins, on the footprint with the sides swapped at a quarter turn.\<close>

definition withinMargins :: "Cloud \<Rightarrow> PlacedRect \<Rightarrow> bool" where
  "withinMargins cl r =
     (let left = centerX r - neededWidth r / 2;
          right = centerX r + neededWidth r / 2;
          top = centerY r - neededHeight r / 2;
          bottom = centerY r + neededHeight r / 2;
          m = margin (c_spacingConfig cl)
      in left \<ge> m \<and> right \<le> real_of_int (c_containerWidth cl) - m
         \<and> top \<ge> m \<and> bottom \<le> real_of_int (c_containerHeight cl) - m)"

text \<open>The \<^verbatim>\<open>for\<close> loop over \<^verbatim>\<open>placedElements\<close>, which breaks at the first overlap.\<close>

primrec hasOverlap :: "real \<Rightarrow> PlacedRect \<Rightarrow> PlacedRect list \<Rightarrow> bool" where
  "hasOverlap pad r [] = False"
| "hasOverlap pad r (p # ps) = (if checkOverlap pad r p then True else hasOverlap pad r ps)"

text \<open>
  The \<^verbatim>\<open>while\<close> loop of the spiral search. It returns the rectangle it accepted, if any,
  with the radius and the number of attempts at the exit of the loop.
\<close>

function spiralSearch ::
  "Cloud \<Rightarrow> PlacedRect list \<Rightarrow> WordData \<Rightarrow> real \<Rightarrow> real \<Rightarrow> nat
   \<Rightarrow> PlacedRect option \<times> real \<times> nat" where
  "spiralSearch cl placed temp spiralRadius angle attempts =
     (if spiralRadius < maxRadius cl \<and> attempts < maxAttempts then
        (if withinMargins cl (testRect cl temp spiralRadius angle)
            \<and> \<not> hasOverlap (padding (c_spacingConfig cl))
                  (testRect cl temp spiralRadius angle) placed
         then (Some (testRect cl temp spiralRadius angle),
               spiralRadius + radiusStep cl, Suc attempts)
         else spiralSearch cl placed temp (spiralRadius + radiusStep cl)
                (angle + angleStep) (Suc attempts))
      else (None, spiralRadius, attempts))"
  by pat_completeness auto
termination
  by (relation "measure (\<lambda>(cl, placed, temp, spiralRadius, angle, attempts).
        maxAttempts - attempts)") auto

declare spiralSearch.simps [simp del]

text \<open>
  A \<^verbatim>\<open>span\<close> left in the container: the label it shows, its \<^verbatim>\<open>--wc-left\<close> and \<^verbatim>\<open>--wc-top\<close>,
  the scale of its transform and its \<^verbatim>\<open>--wc-z-index\<close>.
\<close>

record Tag =
  t_data :: WordData
  t_left :: real
  t_top :: real
  t_scale :: real
  t_zIndex :: nat

record PassState =
  placedElements :: "PlacedRect list"
  children :: "Tag list"

text \<open>
  The body of the \<^verbatim>\<open>forEach\<close> of \<^verbatim>\<open>positionWords\<close> for the label at position \<open>i\<close>. A label
  that finds no place has its \<^verbatim>\<open>span\<close> removed, which leaves the state as it was.
\<close>

definition placeWord :: "Host \<Rightarrow> Cloud \<Rightarrow> PassState \<Rightarrow> nat \<times> WordData \<Rightarrow> PassState" where
  "placeWord h cl st it =
     (let i = fst it; temp = snd it;
          tagWidth = w_width temp; tagHeight = w_height temp
      in if w_isCentered temp then
           \<lparr>placedElements = placedElements st @
              [\<lparr>centerX = surfaceCenterX cl, centerY = surfaceCenterY cl,
                width = tagWidth * 1.5, height = tagHeight * 1.5,
                rotation = w_rotation temp\<rparr>],
            children = children st @
              [\<lparr>t_data = temp, t_left = surfaceCenterX cl - tagWidth / 2,
                t_top = surfaceCenterY cl - tagHeight / 2, t_scale = 1.2, t_zIndex = 50\<rparr>]\<rparr>
         else
           (case fst (spiralSearch cl (placedElements st) temp 120
                        (randomAngle h i * pi * 2) 0) of
              Some r \<Rightarrow>
                \<lparr>placedElements = placedElements st @ [r],
                 children = children st @
                   [\<lparr>t_data = temp, t_left = centerX r - tagWidth / 2,
                     t_top = centerY r - tagHeight / 2, t_scale = 1, t_zIndex = 1\<rparr>]\<rparr>
            | None \<Rightarrow> st))"

definition positionWords ::
  "Host \<Rightarrow> Cloud \<Rightarrow> jsString option \<Rightarrow> WordData list \<Rightarrow> PassState" where
  "positionWords h cl centeredWord temps =
     foldl (placeWord h cl) \<lparr>placedElements = [], children = []\<rparr>
       (enumerate 0
          (if \<not> truthy centeredWord
           then sort_key (\<lambda>t. - (w_width t * w_height t)) temps
           else temps))"

text \<open>
  One layout pass: \<^verbatim>\<open>renderWords(centeredWord)\<close> followed by the \<^verbatim>\<open>positionWords\<close> it
  schedules. \<^verbatim>\<open>positionWords\<close> is a \<^verbatim>\<open>const\<close> declared at the end of the body of
  \<^verbatim>\<open>renderWords\<close>. With a canvas context the declaration has run when the scheduled
  callback calls it. Without one, \<^verbatim>\<open>renderWords\<close> generates the labels with approximate
  widths, schedules the same callback and returns, before the declaration is reached: the
  callback then reads a binding that was never initialised, which throws a
  \<^verbatim>\<open>ReferenceError\<close>, and no label is placed.
\<close>

datatype error = ReferenceError

definition renderWords :: "Host \<Rightarrow> Cloud \<Rightarrow> jsString option \<Rightarrow> error + PassState" where
  "renderWords h cl centeredWord =
     (case measureText h of
        None \<Rightarrow> Inl ReferenceError
      | Some m \<Rightarrow> Inr (positionWords h cl centeredWord (tempElements h cl centeredWord)))"

text \<open>
  \<^verbatim>\<open>renderWordCloud(source, container)\<close>: what the container holds in the end, either the
  paragraph of the placeholder or the outcome of the first pass, whose focus word is drawn
  at random (\<^verbatim>\<open>renderWords(undefined)\<close> runs with the default \<^verbatim>\<open>null\<close>).
\<close>

datatype Rendered = Paragraph jsString | WordCloud "error + PassState"

definition renderWordCloud :: "WordCloudSettings \<Rightarrow> Host \<Rightarrow> jsString \<Rightarrow> Rendered" where
  "renderWordCloud settings h source =
     (let ws = parseWords settings source
      in if length ws = 0
         then Paragraph (js ''No words provided. Add '' @ effectiveSeparator settings
                          @ js ''-separated words.'')
         else WordCloud (renderWords h (makeCloud settings h ws) (pick ws (randomFocus h))))"

fun labelsPlaced :: "Rendered \<Rightarrow> nat" where
  "labelsPlaced (Paragraph msg) = 0"
| "labelsPlaced (WordCloud (Inl e)) = 0"
| "labelsPlaced (WordCloud (Inr st)) = length (children st)"

text \<open>
  The footprint of a placed rectangle as a set of points: its sides swapped at a quarter
  turn, grown by \<open>e\<close> on each side.
\<close>

definition footprint :: "real \<Rightarrow> PlacedRect \<Rightarrow> (real \<times> real) set" where
  "footprint e r =
     {(x, y). centerX r - neededWidth r / 2 - e \<le> x \<and> x \<le> centerX r + neededWidth r / 2 + e
            \<and> centerY r - neededHeight r / 2 - e \<le> y \<and> y \<le> centerY r + neededHeight r / 2 + e}"

text \<open>The surface inside the margins, as a set of points.\<close>

definition insideMargins :: "Cloud \<Rightarrow> (real \<times> real) set" where
  "insideMargins cl =
     {(x, y). margin (c_spacingConfig cl) \<le> x
            \<and> x \<le> real_of_int (c_containerWidth cl) - margin (c_spacingConfig cl)
            \<and> margin (c_spacingConfig cl) \<le> y
            \<and> y \<le> real_of_int (c_containerHeight cl) - margin (c_spacingConfig cl)}"

section \<open>Hosts for the worked examples\<close>

text \<open>
  A host with a container 700 wide and a canvas that measures a word as 0.6 of the font
  size for each code unit, whose random source leaves lists in their order and always
  draws 0; and the same host without a canvas context.
\<close>

definition exampleHost :: Host where
  "exampleHost =
     \<lparr>offsetWidth = 700, innerWidth = Some 1280,
      measureText = Some (\<lambda>w fontSize. real (length w) * real_of_int fontSize * 0.6),
      shuffle = (\<lambda>xs. xs), randomSize = (\<lambda>i. 0), randomColor = (\<lambda>i. 0),
      randomRotation = (\<lambda>i. 0), randomAngle = (\<lambda>i. 0), randomFocus = 0\<rparr>"

definition noCanvasHost :: Host where
  "noCanvasHost = exampleHost\<lparr>measureText := None\<rparr>"

text \<open>The cloud that \<^verbatim>\<open>renderWordCloud\<close> sets up on that host from a source text.\<close>

definition exampleCloud :: "jsString \<Rightarrow> Cloud" where
  "exampleCloud source = makeCloud DEFAULT_SETTINGS exampleHost (parseWords DEFAULT_SETTINGS source)"

section \<open>Results on the sizing policy, the font size and the overlap test\<close>

text \<open>
  C10. The padded overlap test gives the same answer whichever of the two rectangles is
  passed first, for every padding and all widths, heights, centers and rotations.
\<close>

theorem checkOverlap_symmetric:
  "checkOverlap pad r1 r2 = checkOverlap pad r2 r1"
  by (auto simp: checkOverlap_def Let_def)

text \<open>
  C6, as stated, fails for the spacing profile: the word counts 41 and 71 lie in different
  buckets of the thresholds \<open>\<le>10\<close>, \<open>\<le>20\<close>, \<open>\<le>40\<close>, \<open>\<le>70\<close>, \<open>>70\<close>, yet
  \<^verbatim>\<open>getAutoSpacing\<close> returns the same profile for both.
\<close>

theorem spacing_not_five_buckets_counterexample:
  "spec_bucket 41 \<noteq> spec_bucket 71 \<and> getAutoSpacing 41 False = getAutoSpacing 71 False"
  by (simp add: spec_bucket_def getAutoSpacing_def getAutoSpacingPreset_def)

lemma SPACING_CONFIG_inj: "SPACING_CONFIG a = SPACING_CONFIG b \<longleftrightarrow> a = b"
  by (cases a; cases b) simp_all

lemma font_buckets:
  "getAutoFontSizes m c = getAutoFontSizes n c \<longleftrightarrow> spec_bucket m = spec_bucket n"
  by (simp add: getAutoFontSizes_def spec_bucket_def)

lemma spacing_buckets:
  "getAutoSpacing m c = getAutoSpacing n c \<longleftrightarrow> spacing_bucket c m = spacing_bucket c n"
  by (simp add: getAutoSpacing_def getAutoSpacingPreset_def spacing_bucket_def SPACING_CONFIG_inj)

lemma compact_tighter:
  "min_size (getAutoFontSizes n True) < min_size (getAutoFontSizes n False)"
  "max_size (getAutoFontSizes n True) < max_size (getAutoFontSizes n False)"
  "padding (getAutoSpacing n True) \<le> padding (getAutoSpacing n False)"
  "margin (getAutoSpacing n True) \<le> margin (getAutoSpacing n False)"
  by (simp_all add: getAutoFontSizes_def getAutoSpacing_def getAutoSpacingPreset_def)

text \<open>
  C6, amended. The font-size range is bucketed by the five thresholds \<open>\<le>10\<close>, \<open>\<le>20\<close>,
  \<open>\<le>40\<close>, \<open>\<le>70\<close>, \<open>>70\<close>: two word counts get the same range exactly when they lie
  in the same bucket, on either kind of viewport. The spacing profile is bucketed by
  \<open>\<le>10\<close>, \<open>\<le>20\<close>, \<open>\<le>40\<close>, \<open>>40\<close> on a wide viewport and by \<open>\<le>10\<close>, \<open>\<le>20\<close>, \<open>>20\<close>
  on a compact one, again with a different profile for each bucket. The compact table is
  tighter: smaller font sizes, and padding and margin no larger. For every word count in
  41..70 on a wide viewport the font range is \<open>{min: 12, max: 28}\<close>.
\<close>

theorem sizing_policy_buckets:
  "(getAutoFontSizes m c = getAutoFontSizes n c \<longleftrightarrow> spec_bucket m = spec_bucket n)
   \<and> (getAutoSpacing m c = getAutoSpacing n c \<longleftrightarrow> spacing_bucket c m = spacing_bucket c n)
   \<and> min_size (getAutoFontSizes k True) < min_size (getAutoFontSizes k False)
   \<and> max_size (getAutoFontSizes k True) < max_size (getAutoFontSizes k False)
   \<and> padding (getAutoSpacing k True) \<le> padding (getAutoSpacing k False)
   \<and> margin (getAutoSpacing k True) \<le> margin (getAutoSpacing k False)
   \<and> (41 \<le> k \<and> k \<le> 70 \<longrightarrow> getAutoFontSizes k False = \<lparr>min_size = 12, max_size = 28\<rparr>)"
  using font_buckets spacing_buckets compact_tighter
  by (simp add: getAutoFontSizes_def)

theorem sizing_policy_buckets_witness:
  "(41::nat) \<le> 45 \<and> (45::nat) \<le> 70 \<and> getAutoFontSizes 45 False = \<lparr>min_size = 12, max_size = 28\<rparr>
   \<and> (getAutoSpacing 50 False = getAutoSpacing 80 False)"
  using sizing_policy_buckets [of 50 False 80 45]
  by (simp add: spacing_bucket_def)







section \<open>The title-case transform\<close>

subsection \<open>Code units\<close>

lemma js_space: "js '' '' = [32]"
  by (simp add: js_def)

lemma js_eq_Nil: "js s = [] \<longleftrightarrow> s = []"
  by (simp add: js_def)

lemma js_eq_iff: "js s = js t \<longleftrightarrow> s = t"
  unfolding js_def using inj_of_char [where ?'a = nat] by (simp add: inj_map_eq_map)

lemma length_js: "length (js s) = length s"
  by (simp add: js_def)

lemmas js_facts = js_eq_Nil js_eq_iff length_js

lemma lowerLetter_space: "lowerLetter c = 32 \<longleftrightarrow> c = 32"
  by (auto simp: lowerLetter_def)

lemma upperLetter_space: "upperLetter c = 32 \<longleftrightarrow> c = 32"
  by (auto simp: upperLetter_def)

lemma upper_lower_not_lower:
  "\<not> (97 \<le> c \<and> c \<le> 122) \<Longrightarrow> upperLetter (lowerLetter c) = c"
  by (auto simp: lowerLetter_def upperLetter_def)

lemma lower_not_upper: "\<not> (65 \<le> c \<and> c \<le> 90) \<Longrightarrow> lowerLetter c = c"
  by (auto simp: lowerLetter_def)

lemma toLowerCase_ascii: "asciiText s \<Longrightarrow> toLowerCase s = map lowerLetter s"
  by (induction s) (auto simp: toLowerCase_def asciiText_def)

lemma toLowerCase_ne: "s \<noteq> [] \<Longrightarrow> toLowerCase s \<noteq> []"
  by (cases s) (auto simp: toLowerCase_def)

subsection \<open>Splitting at one code unit and joining\<close>

lemma split_single_ne: "split [d] s \<noteq> []"
  by (induction s) (auto split: list.splits)

lemma split_single_Cons:
  "split [d] (c # cs) =
     (if c = d then [] # split [d] cs
      else (c # hd (split [d] cs)) # tl (split [d] cs))"
  using split_single_ne [of d cs] by (auto split: list.splits)

lemma split_single_map:
  assumes "\<And>c. f c = d \<longleftrightarrow> c = d"
  shows "split [d] (map f s) = map (map f) (split [d] s)"
proof (induction s)
  case Nil
  show ?case by simp
next
  case (Cons c cs)
  show ?case
    using Cons.IH assms split_single_ne [of d cs]
    by (simp only: list.map split_single_Cons) (auto simp: hd_map map_tl)
qed

lemma join_Cons_head: "join sep ((c # t) # ts) = c # join sep (t # ts)"
  by (cases ts) simp_all

lemma join_Nil_head: "ts \<noteq> [] \<Longrightarrow> join sep ([] # ts) = sep @ join sep ts"
  by (cases ts) simp_all

lemma join_split_single: "join [d] (split [d] s) = s"
proof (induction s)
  case Nil
  show ?case by simp
next
  case (Cons c cs)
  have ne: "split [d] cs \<noteq> []" by (rule split_single_ne)
  then have "hd (split [d] cs) # tl (split [d] cs) = split [d] cs" by simp
  then show ?case
    using Cons.IH ne
    by (simp only: split_single_Cons) (simp add: join_Cons_head join_Nil_head)
qed

lemma split_single_append:
  "d \<notin> set x \<Longrightarrow> split [d] (x @ s) = (x @ hd (split [d] s)) # tl (split [d] s)"
proof (induction x)
  case Nil
  then show ?case using split_single_ne [of d s] by simp
next
  case (Cons c x)
  then show ?case by (simp only: append_Cons split_single_Cons) auto
qed

lemma split_join_single:
  "xs \<noteq> [] \<Longrightarrow> \<forall>t \<in> set xs. d \<notin> set t \<Longrightarrow> split [d] (join [d] xs) = xs"
proof (induction "[d]" xs rule: join.induct)
  case 1
  then show ?case by simp
next
  case (2 x)
  then show ?case using split_single_append [of d x "[]"] by simp
next
  case (3 x y ys)
  have "split [d] (x @ [d] @ join [d] (y # ys))
          = (x @ hd (split [d] ([d] @ join [d] (y # ys)))) # tl (split [d] ([d] @ join [d] (y # ys)))"
    using 3 by (intro split_single_append) simp
  also have "split [d] ([d] @ join [d] (y # ys)) = [] # (y # ys)"
    using 3 by (simp only: append_Cons append_Nil split_single_Cons) simp
  finally show ?case by simp
qed

lemma split_single_no_sep: "t \<in> set (split [d] s) \<Longrightarrow> d \<notin> set t"
proof (induction s arbitrary: t)
  case Nil
  then show ?case by simp
next
  case (Cons c cs)
  have ne: "split [d] cs \<noteq> []" by (rule split_single_ne)
  show ?case
  proof (cases "c = d")
    case True
    with Cons show ?thesis by (simp only: split_single_Cons) auto
  next
    case False
    with Cons.prems have "t = c # hd (split [d] cs) \<or> t \<in> set (tl (split [d] cs))"
      by (simp only: split_single_Cons) auto
    then show ?thesis
      using False Cons.IH ne by (auto dest: list.set_sel(2) simp: hd_in_set)
  qed
qed

lemma split_single_subset: "t \<in> set (split [d] s) \<Longrightarrow> set t \<subseteq> set s"
proof (induction s arbitrary: t)
  case Nil
  then show ?case by simp
next
  case (Cons c cs)
  have ne: "split [d] cs \<noteq> []" by (rule split_single_ne)
  show ?case
  proof (cases "c = d")
    case True
    with Cons show ?thesis by (simp only: split_single_Cons) auto
  next
    case False
    with Cons.prems have "t = c # hd (split [d] cs) \<or> t \<in> set (tl (split [d] cs))"
      by (simp only: split_single_Cons) auto
    then show ?thesis
    proof
      assume "t = c # hd (split [d] cs)"
      moreover have "set (hd (split [d] cs)) \<subseteq> set cs"
        using Cons.IH ne by (simp add: hd_in_set)
      ultimately show ?thesis by auto
    next
      assume "t \<in> set (tl (split [d] cs))"
      then have "t \<in> set (split [d] cs)" using ne by (auto dest: list.set_sel(2))
      then show ?thesis using Cons.IH by fastforce
    qed
  qed
qed

lemma split_ascii: "asciiText s \<Longrightarrow> t \<in> set (split [d] s) \<Longrightarrow> asciiText t"
  using split_single_subset [of t d s] by (auto simp: asciiText_def list_all_iff)

subsection \<open>Title case on ASCII text\<close>

lemma capitalize_titleCased:
  assumes "titleCased t" and "asciiText t"
  shows "toUpperCase (take 1 (toLowerCase t)) @ drop 1 (toLowerCase t) = t"
proof (cases t)
  case Nil
  then show ?thesis by (simp add: toUpperCase_def toLowerCase_def)
next
  case (Cons c cs)
  from assms(1) Cons have c: "upperLetter (lowerLetter c) = c"
    by (simp add: titleCased_def upper_lower_not_lower)
  from assms(1) Cons have "\<forall>x \<in> set cs. lowerLetter x = x"
    by (auto simp: titleCased_def list_all_iff intro: lower_not_upper)
  then have "map lowerLetter cs = cs" by (simp add: map_idI)
  moreover have "toLowerCase t = map lowerLetter t"
    using assms(2) by (rule toLowerCase_ascii)
  ultimately show ?thesis
    using c Cons by (simp add: toUpperCase_def)
qed

lemma capitalize_no_space:
  "32 \<notin> set w \<Longrightarrow> 32 \<notin> set (toUpperCase (take 1 w) @ drop 1 w)"
proof (cases w)
  case Nil
  then show ?thesis by (simp add: toUpperCase_def)
next
  case (Cons c cs)
  assume "32 \<notin> set w"
  with Cons have "c \<noteq> 32" "32 \<notin> set cs" by auto
  then have "upperLetter c \<noteq> 32" "32 \<notin> set cs"
    by (simp_all add: upperLetter_space)
  with Cons show ?thesis by (auto simp: toUpperCase_def)
qed

lemma split_toLowerCase:
  assumes "asciiText s"
  shows "split [32] (toLowerCase s) = map toLowerCase (split [32] s)"
proof -
  have "split [32] (toLowerCase s) = map (map lowerLetter) (split [32] s)"
    unfolding toLowerCase_ascii [OF assms]
    by (rule split_single_map) (rule lowerLetter_space)
  also have "\<dots> = map toLowerCase (split [32] s)"
    using assms by (auto simp: split_ascii toLowerCase_ascii)
  finally show ?thesis .
qed

lemma applyCasing_title_multi:
  assumes "asciiText s" and "length (split (js '' '') s) \<noteq> 1"
  shows "applyCasing s TitleCase =
     join (js '' '') (map (\<lambda>(index, w).
         if index = 0 \<or> index = length (split (js '' '') s) - 1 \<or> w \<notin> set smallWords
         then toUpperCase (take 1 w) @ drop 1 w else w)
       (enumerate 0 (map toLowerCase (split (js '' '') s))))"
  using assms by (simp add: js_space split_toLowerCase del: split.simps)

text \<open>
  C8, amended. On a phrase of ASCII text with several tokens (the pieces between single
  spaces): if every token is already title-cased and none is a small word, the
  title-case transform returns the phrase unchanged; and in every case the result has the
  same number of tokens, each the lower-cased token of the input, with its first
  character in upper case unless the token is one of the small words and is neither
  first nor last.
\<close>

theorem title_case_multi_token:
  assumes "asciiText s" and "length (split (js '' '') s) \<noteq> 1"
  shows "((\<forall>t \<in> set (split (js '' '') s). titleCased t \<and> toLowerCase t \<notin> set smallWords)
            \<longrightarrow> applyCasing s TitleCase = s)
    \<and> length (split (js '' '') (applyCasing s TitleCase)) = length (split (js '' '') s)
    \<and> (\<forall>i < length (split (js '' '') s).
          split (js '' '') (applyCasing s TitleCase) ! i =
            (let t = toLowerCase (split (js '' '') s ! i)
             in if i = 0 \<or> i = length (split (js '' '') s) - 1 \<or> t \<notin> set smallWords
                then toUpperCase (take 1 t) @ drop 1 t else t))"
proof -
  note applyCasing.simps [simp del]
  define ts where "ts = split [32] s"
  define g where "g = (\<lambda>(index, w).
         if index = 0 \<or> index = length ts - 1 \<or> w \<notin> set smallWords
         then toUpperCase (take 1 w) @ drop 1 w else w)"
  define out where "out = map g (enumerate 0 (map toLowerCase ts))"
  have res: "applyCasing s TitleCase = join [32] out"
    using applyCasing_title_multi [OF assms] by (simp add: out_def g_def ts_def js_space)
  have len: "length out = length ts" by (simp add: out_def)
  have nth: "out ! i = g (i, toLowerCase (ts ! i))" if "i < length ts" for i
    using that by (simp add: out_def nth_enumerate_eq)
  have ne: "out \<noteq> []"
    using split_single_ne [of 32 s] len by (auto simp: ts_def)
  have ascii: "asciiText t" if "t \<in> set ts" for t
    using that assms(1) by (auto simp: ts_def intro: split_ascii)
  have nosp: "32 \<notin> set (toLowerCase t)" if "t \<in> set ts" for t
  proof -
    have "32 \<notin> set t"
      using that split_single_no_sep [of t 32 s] by (simp add: ts_def)
    then have "\<forall>x \<in> set t. lowerLetter x \<noteq> 32"
      by (auto simp: lowerLetter_space)
    then show ?thesis by (auto simp: toLowerCase_ascii [OF ascii [OF that]])
  qed
  have "\<forall>t \<in> set out. 32 \<notin> set t"
  proof
    fix t assume "t \<in> set out"
    then obtain i where i: "i < length ts" "t = out ! i"
      by (metis in_set_conv_nth len)
    then have "32 \<notin> set (toLowerCase (ts ! i))" by (simp add: nosp)
    then show "32 \<notin> set t"
      using i capitalize_no_space [of "toLowerCase (ts ! i)"] by (simp add: nth g_def)
  qed
  with ne have roundtrip: "split [32] (join [32] out) = out"
    by (rule split_join_single)
  have a: "applyCasing s TitleCase = s"
    if h: "\<forall>t \<in> set ts. titleCased t \<and> toLowerCase t \<notin> set smallWords"
  proof -
    have "out = ts"
    proof (rule nth_equalityI)
      show "length out = length ts" by (rule len)
    next
      fix i assume "i < length out"
      then have i: "i < length ts" by (simp add: len)
      then have "titleCased (ts ! i)" "toLowerCase (ts ! i) \<notin> set smallWords"
        "asciiText (ts ! i)"
        using h ascii by auto
      then show "out ! i = ts ! i"
        using i capitalize_titleCased [of "ts ! i"] by (simp add: nth g_def)
    qed
    then show ?thesis
      using res join_split_single [of 32 s] by (simp add: ts_def)
  qed
  show ?thesis
    using a roundtrip len nth by (simp add: res js_space ts_def [symmetric] g_def Let_def)
qed

lemmas casing_eval = js_def asciiText_def titleCased_def toLowerCase_def toUpperCase_def
  lowerLetter_def upperLetter_def smallWords_def

theorem title_case_multi_token_witness:
  "asciiText (js ''Design Thinking'') \<and> length (split (js '' '') (js ''Design Thinking'')) \<noteq> 1
   \<and> list_all (\<lambda>t. titleCased t \<and> toLowerCase t \<notin> set smallWords)
         (split (js '' '') (js ''Design Thinking''))
   \<and> applyCasing (js ''Design Thinking'') TitleCase = js ''Design Thinking''
   \<and> split (js '' '') (applyCasing (js ''the art of design'') TitleCase) ! 2 = js ''of''"
proof -
  have 1: "asciiText (js ''Design Thinking'')" by (simp add: casing_eval)
  have 2: "length (split (js '' '') (js ''Design Thinking'')) \<noteq> 1" by (simp add: js_def)
  have 3: "\<forall>t \<in> set (split (js '' '') (js ''Design Thinking'')).
             titleCased t \<and> toLowerCase t \<notin> set smallWords"
    by (simp add: casing_eval)
  have 4: "asciiText (js ''the art of design'')" by (simp add: casing_eval)
  have 5: "length (split (js '' '') (js ''the art of design'')) \<noteq> 1" by (simp add: js_def)
  have 6: "split (js '' '') (applyCasing (js ''the art of design'') TitleCase) ! 2 = js ''of''"
    using title_case_multi_token [OF 4 5, THEN conjunct2, THEN conjunct2, rule_format, of 2]
    by (simp add: casing_eval)
  from title_case_multi_token [OF 1 2] 3 show ?thesis
    using 1 2 6 by (simp add: list_all_iff)
qed

text \<open>
  C8, as stated, fails outside ASCII. The phrase of the two tokens \<open>Istanbul\<close>, written
  with the capital I with a dot above (U+0130) as its first code unit, and \<open>Design\<close> is
  title-cased and has no small word. Lower-casing turns U+0130 into \<open>i\<close> followed by the
  combining dot (U+0307), and the first code unit \<open>i\<close> alone is put into upper case: the
  result starts with \<open>I\<close> and U+0307, so the phrase does not come back unchanged.
\<close>

theorem title_case_dotted_I_counterexample:
  "length (split (js '' '') (304 # js ''stanbul Design'')) \<noteq> 1
   \<and> list_all (\<lambda>t. titleCased t \<and> toLowerCase t \<notin> set smallWords)
         (split (js '' '') (304 # js ''stanbul Design''))
   \<and> applyCasing (304 # js ''stanbul Design'') TitleCase = 73 # 775 # js ''stanbul Design''
   \<and> applyCasing (304 # js ''stanbul Design'') TitleCase \<noteq> 304 # js ''stanbul Design''"
  by (simp add: casing_eval enumerate_eq_zip)

lemma title_example:
  "applyCasing (js ''the art of design'') TitleCase = js ''The Art of Design''"
  by (simp add: casing_eval enumerate_eq_zip)

section \<open>Results on the layout pass\<close>

subsection \<open>The spiral search\<close>

lemma hasOverlap_iff: "hasOverlap pad r ps \<longleftrightarrow> (\<exists>p \<in> set ps. checkOverlap pad r p)"
  by (induction ps) auto

lemma spiralSearch_exit:
  assumes "spiralSearch cl placed temp r0 a0 n0 = (res, r, n)" and "n0 \<le> maxAttempts"
  shows "n0 \<le> n \<and> n \<le> maxAttempts \<and> r = r0 + real (n - n0) * radiusStep cl
       \<and> (\<forall>k. n0 \<le> k \<and> k < n \<longrightarrow> r0 + real (k - n0) * radiusStep cl < maxRadius cl)
       \<and> (res = None \<longrightarrow> n = maxAttempts \<or> maxRadius cl \<le> r)"
  using assms
proof (induction cl placed temp r0 a0 n0 arbitrary: res r n rule: spiralSearch.induct)
  case (1 cl placed temp r0 a0 n0)
  show ?case
  proof (cases "r0 < maxRadius cl \<and> n0 < maxAttempts")
    case False
    with "1.prems" show ?thesis
      by (subst (asm) spiralSearch.simps) auto
  next
    case True
    show ?thesis
    proof (cases "withinMargins cl (testRect cl temp r0 a0)
            \<and> \<not> hasOverlap (padding (c_spacingConfig cl)) (testRect cl temp r0 a0) placed")
      case accept: True
      with True "1.prems" have "res = Some (testRect cl temp r0 a0)"
        "r = r0 + radiusStep cl" "n = Suc n0"
        by (subst (asm) spiralSearch.simps; simp)+
      with True show ?thesis by (auto simp: le_less_Suc_eq)
    next
      case reject: False
      with True "1.prems" have rec:
        "spiralSearch cl placed temp (r0 + radiusStep cl) (a0 + angleStep) (Suc n0) = (res, r, n)"
        by (subst (asm) spiralSearch.simps) auto
      from True have le: "Suc n0 \<le> maxAttempts" by simp
      note ih = "1.IH" [OF True reject rec le]
      have "r0 + real (k - n0) * radiusStep cl < maxRadius cl" if "n0 \<le> k" "k < n" for k
      proof (cases "k = n0")
        case True
        with \<open>r0 < maxRadius cl \<and> n0 < maxAttempts\<close> show ?thesis by simp
      next
        case False
        with that have k: "Suc n0 \<le> k" by simp
        then have "real (k - n0) = 1 + real (k - Suc n0)" by (simp add: Suc_diff_le)
        with ih k that show ?thesis by (simp add: algebra_simps)
      qed
      moreover have "r = r0 + real (n - n0) * radiusStep cl"
      proof -
        from ih have "Suc n0 \<le> n" by simp
        then have "real (n - n0) = 1 + real (n - Suc n0)" by (simp add: Suc_diff_le)
        with ih show ?thesis by (simp add: algebra_simps)
      qed
      ultimately show ?thesis using ih by auto
    qed
  qed
qed

lemma spiralSearch_Some:
  assumes "fst (spiralSearch cl placed temp r0 a0 n0) = Some rect"
  shows "withinMargins cl rect \<and> \<not> hasOverlap (padding (c_spacingConfig cl)) rect placed
       \<and> (\<exists>radius angle. rect = testRect cl temp radius angle)"
  using assms
proof (induction cl placed temp r0 a0 n0 rule: spiralSearch.induct)
  case (1 cl placed temp r0 a0 n0)
  show ?case
  proof (cases "r0 < maxRadius cl \<and> n0 < maxAttempts")
    case False
    with "1.prems" show ?thesis
      by (subst (asm) spiralSearch.simps) auto
  next
    case True
    show ?thesis
    proof (cases "withinMargins cl (testRect cl temp r0 a0)
            \<and> \<not> hasOverlap (padding (c_spacingConfig cl)) (testRect cl temp r0 a0) placed")
      case accept: True
      with True "1.prems" have "rect = testRect cl temp r0 a0"
        by (subst (asm) spiralSearch.simps) auto
      with accept show ?thesis by auto
    next
      case reject: False
      with True "1.prems" have
        "fst (spiralSearch cl placed temp (r0 + radiusStep cl) (a0 + angleStep) (Suc n0)) = Some rect"
        by (subst (asm) spiralSearch.simps) auto
      with "1.IH" [OF True reject] show ?thesis by blast
    qed
  qed
qed

lemma spiralSearch_never_fits:
  assumes "\<And>radius angle. \<not> withinMargins cl (testRect cl temp radius angle)"
  shows "fst (spiralSearch cl placed temp r0 a0 n0) = None"
proof (cases "fst (spiralSearch cl placed temp r0 a0 n0)")
  case None
  then show ?thesis .
next
  case (Some rect)
  from spiralSearch_Some [OF this] assms show ?thesis by blast
qed

lemma too_wide_never_within:
  assumes "real_of_int (c_containerWidth cl) - 2 * margin (c_spacingConfig cl)
             < (if isQuarterTurn (w_rotation temp) then w_height temp else w_width temp)"
  shows "\<not> withinMargins cl (testRect cl temp radius angle)"
  using assms by (auto simp: withinMargins_def testRect_def neededWidth_def Let_def)

subsection \<open>Geometry\<close>

lemma checkOverlap_commute: "checkOverlap pad a b \<longleftrightarrow> checkOverlap pad b a"
  by (auto simp: checkOverlap_def Let_def)

lemma footprint_disjoint:
  assumes "0 \<le> pad" and "\<not> checkOverlap pad a b"
  shows "footprint (pad / 2) a \<inter> footprint (pad / 2) b = {}"
proof -
  have "False" if "p \<in> footprint (pad / 2) a" "p \<in> footprint (pad / 2) b" for p
  proof -
    obtain x y where p: "p = (x, y)" by (cases p)
    from assms(2) consider
        "centerX a + neededWidth a / 2 + pad < centerX b - neededWidth b / 2 - pad"
      | "centerX a - neededWidth a / 2 - pad > centerX b + neededWidth b / 2 + pad"
      | "centerY a + neededHeight a / 2 + pad < centerY b - neededHeight b / 2 - pad"
      | "centerY a - neededHeight a / 2 - pad > centerY b + neededHeight b / 2 + pad"
      by (auto simp: checkOverlap_def Let_def)
    then show False
      using that assms(1) unfolding p footprint_def by cases auto
  qed
  then show ?thesis by blast
qed

lemma withinMargins_footprint:
  "withinMargins cl r \<Longrightarrow> footprint 0 r \<subseteq> insideMargins cl"
  by (auto simp: withinMargins_def footprint_def insideMargins_def Let_def)

subsection \<open>One label\<close>

lemma placeWord_centered:
  "w_isCentered temp \<Longrightarrow> placeWord h cl st (i, temp) =
     \<lparr>placedElements = placedElements st @
        [\<lparr>centerX = surfaceCenterX cl, centerY = surfaceCenterY cl,
          width = w_width temp * 1.5, height = w_height temp * 1.5,
          rotation = w_rotation temp\<rparr>],
      children = children st @
        [\<lparr>t_data = temp, t_left = surfaceCenterX cl - w_width temp / 2,
          t_top = surfaceCenterY cl - w_height temp / 2, t_scale = 1.2, t_zIndex = 50\<rparr>]\<rparr>"
  by (simp add: placeWord_def Let_def)

lemma placeWord_unplaced:
  "\<not> w_isCentered temp \<Longrightarrow>
   fst (spiralSearch cl (placedElements st) temp 120 (randomAngle h i * pi * 2) 0) = None \<Longrightarrow>
   placeWord h cl st (i, temp) = st"
  by (simp add: placeWord_def Let_def)

lemma placeWord_placed:
  "\<not> w_isCentered temp \<Longrightarrow>
   fst (spiralSearch cl (placedElements st) temp 120 (randomAngle h i * pi * 2) 0) = Some r \<Longrightarrow>
   placeWord h cl st (i, temp) =
     \<lparr>placedElements = placedElements st @ [r],
      children = children st @
        [\<lparr>t_data = temp, t_left = centerX r - w_width temp / 2,
          t_top = centerY r - w_height temp / 2, t_scale = 1, t_zIndex = 1\<rparr>]\<rparr>"
  by (simp add: placeWord_def Let_def)

lemma placeWord_cases:
  obtains (centered) "w_isCentered (snd it)"
      "placedElements (placeWord h cl st it) = placedElements st @
         [\<lparr>centerX = surfaceCenterX cl, centerY = surfaceCenterY cl,
           width = w_width (snd it) * 1.5, height = w_height (snd it) * 1.5,
           rotation = w_rotation (snd it)\<rparr>]"
      "children (placeWord h cl st it) = children st @
        [\<lparr>t_data = snd it, t_left = surfaceCenterX cl - w_width (snd it) / 2,
          t_top = surfaceCenterY cl - w_height (snd it) / 2, t_scale = 1.2, t_zIndex = 50\<rparr>]"
    | (unplaced) "\<not> w_isCentered (snd it)" "placeWord h cl st it = st"
    | (placed) r where "\<not> w_isCentered (snd it)"
      "withinMargins cl r"
      "\<forall>p \<in> set (placedElements st). \<not> checkOverlap (padding (c_spacingConfig cl)) r p"
      "placedElements (placeWord h cl st it) = placedElements st @ [r]"
      "children (placeWord h cl st it) = children st @
        [\<lparr>t_data = snd it, t_left = centerX r - w_width (snd it) / 2,
          t_top = centerY r - w_height (snd it) / 2, t_scale = 1, t_zIndex = 1\<rparr>]"
proof (cases "w_isCentered (snd it)")
  case True
  then show ?thesis
    using centered placeWord_centered [of "snd it" h cl st "fst it"] by simp
next
  case nc: False
  show ?thesis
  proof (cases "fst (spiralSearch cl (placedElements st) (snd it) 120
                      (randomAngle h (fst it) * pi * 2) 0)")
    case None
    with nc show ?thesis
      using unplaced placeWord_unplaced [of "snd it" cl st h "fst it"] by simp
  next
    case (Some r)
    from spiralSearch_Some [OF Some] have "withinMargins cl r"
      "\<forall>p \<in> set (placedElements st). \<not> checkOverlap (padding (c_spacingConfig cl)) r p"
      by (auto simp: hasOverlap_iff)
    with nc Some show ?thesis
      using placed [of r] placeWord_placed [of "snd it" cl st h "fst it" r] by simp
  qed
qed

subsection \<open>Invariants of the loop over the labels\<close>

lemma foldl_invariant:
  assumes "P st" and "\<And>s x. x \<in> set xs \<Longrightarrow> P s \<Longrightarrow> P (f s x)"
  shows "P (foldl f st xs)"
  using assms by (induction xs arbitrary: st) auto

lemma placeWord_keeps_apart:
  assumes "\<not> w_isCentered (snd it)"
    and "sorted_wrt (\<lambda>a b. \<not> checkOverlap pad b a) (placedElements st)"
    and "pad = padding (c_spacingConfig cl)"
  shows "sorted_wrt (\<lambda>a b. \<not> checkOverlap pad b a) (placedElements (placeWord h cl st it))"
proof (cases rule: placeWord_cases [of it h cl st])
  case centered
  with assms show ?thesis by simp
next
  case unplaced
  with assms show ?thesis by simp
next
  case (placed r)
  with assms show ?thesis by (simp add: sorted_wrt_append)
qed

lemma placeWord_first_apart:
  "sorted_wrt (\<lambda>a b. \<not> checkOverlap pad b a)
     (placedElements (placeWord h cl \<lparr>placedElements = [], children = []\<rparr> it))"
  by (cases rule: placeWord_cases [of it h cl "\<lparr>placedElements = [], children = []\<rparr>"]) simp_all

lemma foldl_keeps_apart:
  assumes "\<forall>it \<in> set (tl its). \<not> w_isCentered (snd it)"
    and "pad = padding (c_spacingConfig cl)"
  shows "sorted_wrt (\<lambda>a b. \<not> checkOverlap pad b a)
     (placedElements (foldl (placeWord h cl) \<lparr>placedElements = [], children = []\<rparr> its))"
proof (cases its)
  case Nil
  then show ?thesis by simp
next
  case (Cons it rest)
  have "sorted_wrt (\<lambda>a b. \<not> checkOverlap pad b a)
     (placedElements (foldl (placeWord h cl)
        (placeWord h cl \<lparr>placedElements = [], children = []\<rparr> it) rest))"
  proof (rule foldl_invariant [where P = "\<lambda>s::PassState. sorted_wrt (\<lambda>a b. \<not> checkOverlap pad b a) (placedElements s)"])
    show "sorted_wrt (\<lambda>a b. \<not> checkOverlap pad b a)
      (placedElements (placeWord h cl \<lparr>placedElements = [], children = []\<rparr> it))"
      by (rule placeWord_first_apart)
  next
    fix s :: PassState and x
    assume "x \<in> set rest" "sorted_wrt (\<lambda>a b. \<not> checkOverlap pad b a) (placedElements s)"
    with assms Cons show "sorted_wrt (\<lambda>a b. \<not> checkOverlap pad b a)
        (placedElements (placeWord h cl s x))"
      by (intro placeWord_keeps_apart) auto
  qed
  with Cons show ?thesis by simp
qed

lemma placeWord_keeps_within:
  assumes "list_all2 (\<lambda>t r. \<not> w_isCentered (t_data t) \<longrightarrow> withinMargins cl r)
             (children st) (placedElements st)"
  shows "list_all2 (\<lambda>t r. \<not> w_isCentered (t_data t) \<longrightarrow> withinMargins cl r)
           (children (placeWord h cl st it)) (placedElements (placeWord h cl st it))"
proof (cases rule: placeWord_cases [of it h cl st])
  case centered
  with assms show ?thesis by (simp add: list_all2_appendI)
next
  case unplaced
  with assms show ?thesis by simp
next
  case (placed r)
  with assms show ?thesis by (simp add: list_all2_appendI)
qed

lemma positionWords_within:
  "list_all2 (\<lambda>t r. \<not> w_isCentered (t_data t) \<longrightarrow> withinMargins cl r)
     (children (positionWords h cl focus temps)) (placedElements (positionWords h cl focus temps))"
  unfolding positionWords_def
  by (rule foldl_invariant) (simp_all add: placeWord_keeps_within)

subsection \<open>The labels of a pass\<close>

lemma w_word_makeWordData: "w_word (makeWordData h cl focus iw) = snd iw"
  by (simp add: makeWordData_def Let_def)

lemma w_isCentered_makeWordData:
  "w_isCentered (makeWordData h cl focus iw) \<longleftrightarrow> focus = Some (snd iw)"
  by (simp add: makeWordData_def Let_def)

lemma words_of_tempElements:
  "map w_word (tempElements h cl focus) = shuffledWords h cl focus"
  by (simp add: tempElements_def o_def w_word_makeWordData map_snd_enumerate [unfolded o_def])

lemma isCentered_tempElements:
  "t \<in> set (tempElements h cl focus) \<Longrightarrow> w_isCentered t \<longleftrightarrow> focus = Some (w_word t)"
  by (auto simp: tempElements_def w_isCentered_makeWordData w_word_makeWordData)

lemma tempElements_focus:
  assumes "c \<noteq> []"
  shows "tempElements h cl (Some c) =
     makeWordData h cl (Some c) (0, c)
       # map (makeWordData h cl (Some c))
           (enumerate 1 (shuffle h (filter (\<lambda>w. w \<noteq> c) (c_words cl))))"
  using assms by (simp add: tempElements_def shuffledWords_def)

lemma shuffle_set:
  assumes "\<forall>xs. mset (shuffle h xs) = mset xs"
  shows "set (shuffle h xs) = set xs"
  using assms by (metis set_mset_mset)

lemma others_not_centered:
  assumes perm: "\<forall>xs. mset (shuffle h xs) = mset xs" and ne: "[] \<notin> set (c_words cl)"
  shows "\<forall>t \<in> set (tl (if \<not> truthy focus
                           then sort_key (\<lambda>t. - (w_width t * w_height t)) (tempElements h cl focus)
                           else tempElements h cl focus)). \<not> w_isCentered t"
proof (cases "truthy focus")
  case True
  then obtain c where c: "focus = Some c" "c \<noteq> []"
    by (auto simp: truthy_def split: option.splits)
  have "\<not> w_isCentered t"
    if "t \<in> set (map (makeWordData h cl (Some c))
           (enumerate 1 (shuffle h (filter (\<lambda>w. w \<noteq> c) (c_words cl)))))" for t
  proof -
    from that obtain iw where iw: "iw \<in> set (enumerate 1 (shuffle h (filter (\<lambda>w. w \<noteq> c) (c_words cl))))"
      "t = makeWordData h cl (Some c) iw" by auto
    then have "snd iw \<in> set (shuffle h (filter (\<lambda>w. w \<noteq> c) (c_words cl)))"
      by (metis map_snd_enumerate imageI set_map)
    then have "snd iw \<noteq> c" using shuffle_set [OF perm] by simp
    with iw show ?thesis by (auto simp: w_isCentered_makeWordData)
  qed
  with True c show ?thesis by (simp add: tempElements_focus)
next
  case False
  have nc: "\<not> w_isCentered t" if "t \<in> set (tempElements h cl focus)" for t
  proof -
    have "w_word t \<in> set (shuffledWords h cl focus)"
      using that words_of_tempElements [of h cl focus] by (metis image_eqI list.set_map)
    moreover have "shuffledWords h cl focus = shuffle h (c_words cl)"
      using False by (auto simp: shuffledWords_def truthy_def split: option.splits)
    ultimately have "w_word t \<in> set (c_words cl)" using shuffle_set [OF perm] by simp
    with ne have "w_word t \<noteq> []" by auto
    with False that show ?thesis
      by (auto simp: isCentered_tempElements truthy_def split: option.splits)
  qed
  have sub: "set (tl xs) \<subseteq> set xs" for xs :: "WordData list"
    by (cases xs) auto
  show ?thesis
  proof
    fix t
    assume "t \<in> set (tl (if \<not> truthy focus
                           then sort_key (\<lambda>t. - (w_width t * w_height t)) (tempElements h cl focus)
                           else tempElements h cl focus))"
    with False have "t \<in> set (tl (sort_key (\<lambda>t. - (w_width t * w_height t)) (tempElements h cl focus)))"
      by simp
    then have "t \<in> set (sort_key (\<lambda>t. - (w_width t * w_height t)) (tempElements h cl focus))"
      using sub by blast
    then have "t \<in> set (tempElements h cl focus)" by simp
    then show "\<not> w_isCentered t" by (rule nc)
  qed
qed

subsection \<open>The words and the spacing of a cloud\<close>

lemma join_two_ne: "2 \<le> length xs \<Longrightarrow> sep \<noteq> [] \<Longrightarrow> join sep xs \<noteq> []"
  by (cases "(sep, xs)" rule: join.cases) auto

lemma applyCasing_ne: "w \<noteq> [] \<Longrightarrow> applyCasing w c \<noteq> []"
proof (cases c)
  case TitleCase
  assume w: "w \<noteq> []"
  show ?thesis
  proof (cases "length (split [32] (toLowerCase w)) = 1")
    case True
    with w TitleCase show ?thesis by (cases w) (simp_all add: toUpperCase_def js_space)
  next
    case False
    have "split [32] (toLowerCase w) \<noteq> []" by (rule split_single_ne)
    with False have "2 \<le> length (split [32] (toLowerCase w))"
      by (cases "split [32] (toLowerCase w)") (auto simp: Suc_le_eq)
    then have "join [32] (map (\<lambda>(index, word).
                if index = 0 \<or> index = length (split [32] (toLowerCase w)) - 1
                   \<or> word \<notin> set smallWords
                then toUpperCase (take 1 word) @ drop 1 word
                else word)
             (enumerate 0 (split [32] (toLowerCase w)))) \<noteq> []"
      by (intro join_two_ne) simp_all
    with False TitleCase show ?thesis by (simp add: Let_def js_space del: split.simps)
  qed
qed (simp_all add: toUpperCase_def toLowerCase_ne)

lemma parseWords_ne: "[] \<notin> set (parseWords settings source)"
proof
  assume "[] \<in> set (parseWords settings source)"
  then obtain w where "w \<in> set (rawWords settings source)" "applyCasing w (casing settings) = []"
    by (auto simp: parseWords_def)
  moreover from this have "w \<noteq> []" by (auto simp: rawWords_def)
  ultimately show False using applyCasing_ne by blast
qed

lemma padding_preset: "0 \<le> padding (SPACING_CONFIG p)"
  by (cases p) simp_all

lemma padding_makeCloud: "0 \<le> padding (c_spacingConfig (makeCloud settings h ws))"
  by (simp add: makeCloud_def Let_def getAutoSpacing_def padding_preset)

lemma c_words_makeCloud: "c_words (makeCloud settings h ws) = ws"
  by (simp add: makeCloud_def Let_def)

subsection \<open>A whole pass\<close>

lemma renderWords_Inr:
  "renderWords h cl focus = Inr st \<Longrightarrow>
   st = positionWords h cl focus (tempElements h cl focus)"
  by (auto simp: renderWords_def split: option.splits)

lemma tl_enumerate: "tl (enumerate n xs) = enumerate (Suc n) (tl xs)"
  by (cases xs) simp_all

lemma snd_in_enumerate: "it \<in> set (enumerate n xs) \<Longrightarrow> snd it \<in> set xs"
  by (metis map_snd_enumerate imageI set_map)

lemma positionWords_apart:
  assumes "\<forall>xs. mset (shuffle h xs) = mset xs" and "[] \<notin> set (c_words cl)"
  shows "sorted_wrt (\<lambda>a b. \<not> checkOverlap (padding (c_spacingConfig cl)) b a)
           (placedElements (positionWords h cl focus (tempElements h cl focus)))"
  unfolding positionWords_def
proof (rule foldl_keeps_apart)
  show "\<forall>it\<in>set (tl (enumerate 0
            (if \<not> truthy focus
             then sort_key (\<lambda>t. - (w_width t * w_height t)) (tempElements h cl focus)
             else tempElements h cl focus))). \<not> w_isCentered (snd it)"
    using others_not_centered [OF assms, of focus]
    by (auto simp only: tl_enumerate dest!: snd_in_enumerate)
qed simp

text \<open>
  C1. In every completed layout pass of a cloud set up by \<^verbatim>\<open>renderWordCloud\<close>, whatever
  the focus word, any two distinct rectangles of the placed set pass the padded overlap
  test (each was accepted only after the test against every rectangle placed before it
  reported no overlap), and their footprints, with the sides swapped at a quarter turn
  and grown by half the padding on each side, have no point in common. The random
  shuffle is assumed to return a permutation of its argument.
\<close>

theorem placed_rectangles_disjoint:
  assumes "\<forall>xs. mset (shuffle h xs) = mset xs"
    and "cl = makeCloud settings h0 (parseWords settings source)"
    and "renderWords h cl focus = Inr st"
    and "i < length (placedElements st)" and "j < length (placedElements st)" and "i \<noteq> j"
  shows "\<not> checkOverlap (padding (c_spacingConfig cl)) (placedElements st ! i) (placedElements st ! j)
       \<and> footprint (padding (c_spacingConfig cl) / 2) (placedElements st ! i)
            \<inter> footprint (padding (c_spacingConfig cl) / 2) (placedElements st ! j) = {}"
proof -
  have ne: "[] \<notin> set (c_words cl)"
    using assms(2) parseWords_ne by (simp add: c_words_makeCloud)
  have pad: "0 \<le> padding (c_spacingConfig cl)"
    using assms(2) by (simp add: padding_makeCloud)
  have st: "st = positionWords h cl focus (tempElements h cl focus)"
    using assms(3) by (rule renderWords_Inr)
  have apart: "sorted_wrt (\<lambda>a b. \<not> checkOverlap (padding (c_spacingConfig cl)) b a)
                 (placedElements st)"
    unfolding st using assms(1) ne by (rule positionWords_apart)
  have "\<not> checkOverlap (padding (c_spacingConfig cl)) (placedElements st ! i) (placedElements st ! j)"
  proof (cases "i < j")
    case True
    with apart assms(5) have "\<not> checkOverlap (padding (c_spacingConfig cl))
        (placedElements st ! j) (placedElements st ! i)"
      by (simp add: sorted_wrt_iff_nth_less)
    then show ?thesis by (simp add: checkOverlap_commute)
  next
    case False
    with assms(6) have "j < i" by simp
    with apart assms(4) show ?thesis by (simp add: sorted_wrt_iff_nth_less)
  qed
  with pad show ?thesis by (simp add: footprint_disjoint)
qed

text \<open>
  C2, amended. In every completed layout pass the spans and the placed rectangles run in
  step, and the footprint of every placed rectangle that belongs to a label other than
  the focused one, with the sides swapped at a quarter turn, lies within
  \<open>[margin, width - margin] \<times> [margin, height - margin]\<close>.
\<close>

theorem unfocused_within_margins:
  assumes "renderWords h cl focus = Inr st"
  shows "length (children st) = length (placedElements st)
       \<and> (\<forall>k < length (placedElements st).
             \<not> w_isCentered (t_data (children st ! k))
             \<longrightarrow> footprint 0 (placedElements st ! k) \<subseteq> insideMargins cl)"
proof -
  have st: "st = positionWords h cl focus (tempElements h cl focus)"
    using assms by (rule renderWords_Inr)
  have inv: "list_all2 (\<lambda>t r. \<not> w_isCentered (t_data t) \<longrightarrow> withinMargins cl r)
               (children st) (placedElements st)"
    unfolding st by (rule positionWords_within)
  then have len: "length (children st) = length (placedElements st)"
    by (rule list_all2_lengthD)
  moreover have "footprint 0 (placedElements st ! k) \<subseteq> insideMargins cl"
    if "k < length (placedElements st)" "\<not> w_isCentered (t_data (children st ! k))" for k
    using list_all2_nthD2 [OF inv that(1)] that(2) by (simp add: withinMargins_footprint)
  ultimately show ?thesis by blast
qed

text \<open>
  C4. The spiral search of a label returns, after at most 20000 turns of its loop; every
  turn it ran started with the radius below \<open>2 \<times> max(width, height)\<close>, the radius growing
  by the same step each turn from 120; when it ends with no place found, the attempts
  have reached 20000 or the radius has reached that bound; and then the label's span is
  removed and the pass goes on from the state it had: nothing is placed or raised.
\<close>

theorem spiral_search_bounded:
  assumes "spiralSearch cl (placedElements st) temp 120 (randomAngle h i * pi * 2) 0 = (res, r, n)"
  shows "n \<le> 20000
       \<and> r = 120 + real n * radiusStep cl
       \<and> (\<forall>k < n. 120 + real k * radiusStep cl < maxRadius cl)
       \<and> (res = None \<longrightarrow> (n = 20000 \<or> maxRadius cl \<le> r)
              \<and> (\<not> w_isCentered temp \<longrightarrow> placeWord h cl st (i, temp) = st))"
proof -
  have "0 \<le> maxAttempts" by simp
  from spiralSearch_exit [OF assms this] have
    "n \<le> 20000" "r = 120 + real n * radiusStep cl"
    "\<forall>k < n. 120 + real k * radiusStep cl < maxRadius cl"
    "res = None \<longrightarrow> n = 20000 \<or> maxRadius cl \<le> r"
    unfolding maxAttempts_def by auto
  moreover have "placeWord h cl st (i, temp) = st" if "res = None" "\<not> w_isCentered temp"
    using that assms by (intro placeWord_unplaced) simp_all
  ultimately show ?thesis by blast
qed

text \<open>
  C5, amended. With a shuffle that returns a permutation: in a pass without focus word
  every word of the token list, duplicates included, yields exactly one label; in a pass
  with a focus word the focused word yields the first label, which is the only one
  marked as centered, and the words that follow are the shuffled words of the list other
  than the focus word, each of them yielding exactly one label, while all occurrences of
  the focus word in the list together yield that single first label.
\<close>

theorem labels_of_a_pass:
  assumes "\<forall>xs. mset (shuffle h xs) = mset xs"
  shows "(\<not> truthy focus \<longrightarrow> mset (map w_word (tempElements h cl focus)) = mset (c_words cl))
       \<and> (\<forall>c. focus = Some c \<and> c \<noteq> [] \<longrightarrow>
             map w_word (tempElements h cl focus)
               = c # shuffle h (filter (\<lambda>w. w \<noteq> c) (c_words cl))
             \<and> mset (map w_word (tempElements h cl focus))
               = add_mset c (filter_mset (\<lambda>w. w \<noteq> c) (mset (c_words cl)))
             \<and> map w_isCentered (tempElements h cl focus)
               = True # replicate (length (filter (\<lambda>w. w \<noteq> c) (c_words cl))) False)"
proof -
  have a: "mset (map w_word (tempElements h cl focus)) = mset (c_words cl)" if "\<not> truthy focus"
    using that assms
    by (auto simp: words_of_tempElements shuffledWords_def truthy_def split: option.splits)
  have b: "map w_word (tempElements h cl (Some c))
               = c # shuffle h (filter (\<lambda>w. w \<noteq> c) (c_words cl))" if "c \<noteq> []" for c
    using that by (simp add: words_of_tempElements shuffledWords_def)
  have d: "map w_isCentered (tempElements h cl (Some c))
             = True # replicate (length (filter (\<lambda>w. w \<noteq> c) (c_words cl))) False"
    if "c \<noteq> []" for c
  proof -
    let ?rest = "shuffle h (filter (\<lambda>w. w \<noteq> c) (c_words cl))"
    have len: "length ?rest = length (filter (\<lambda>w. w \<noteq> c) (c_words cl))"
      using assms by (metis size_mset)
    have "map w_isCentered (map (makeWordData h cl (Some c)) (enumerate 1 ?rest))
            = replicate (length ?rest) False"
    proof (rule nth_equalityI)
      show "length (map w_isCentered (map (makeWordData h cl (Some c)) (enumerate 1 ?rest)))
              = length (replicate (length ?rest) False)" by simp
    next
      fix k
      assume "k < length (map w_isCentered (map (makeWordData h cl (Some c)) (enumerate 1 ?rest)))"
      then have k: "k < length ?rest" by simp
      then have "?rest ! k \<in> set ?rest" by simp
      then have "?rest ! k \<noteq> c" using shuffle_set [OF assms] by simp
      with k show "map w_isCentered (map (makeWordData h cl (Some c)) (enumerate 1 ?rest)) ! k
                     = replicate (length ?rest) False ! k"
        by (auto simp: nth_enumerate_eq w_isCentered_makeWordData)
    qed
    with that len show ?thesis
      by (simp add: tempElements_focus w_isCentered_makeWordData)
  qed
  show ?thesis
    using a b d assms by auto
qed

text \<open>
  C9. When splitting, trimming and filtering the source leaves no token,
  \<^verbatim>\<open>renderWordCloud\<close> puts one paragraph into the container, whose text names the
  separator in use (the configured one unless that is empty), and places no label; the
  function returns this outcome and raises nothing.
\<close>

theorem empty_input_placeholder:
  assumes "rawWords settings source = []"
  shows "renderWordCloud settings h source
           = Paragraph (js ''No words provided. Add '' @ effectiveSeparator settings
                          @ js ''-separated words.'')
       \<and> labelsPlaced (renderWordCloud settings h source) = 0
       \<and> (separator settings \<noteq> [] \<longrightarrow> effectiveSeparator settings = separator settings)"
  using assms by (simp add: renderWordCloud_def parseWords_def effectiveSeparator_def)

subsection \<open>Worked examples\<close>

lemmas tokenizing = parseWords_def rawWords_def effectiveSeparator_def DEFAULT_SETTINGS_def
  trim_def isWhitespace_def js_def

lemmas cloud_setup = exampleCloud_def makeCloud_def exampleHost_def getContainerWidth_def
  getAutoFontSizes_def getAutoSpacing_def getAutoSpacingPreset_def Let_def

lemmas labelling = tempElements_def shuffledWords_def makeWordData_def labelFontSize_def
  pick_def measuredWidth_def js_facts

lemma exampleHost_perm: "\<forall>xs. mset (shuffle exampleHost xs) = mset xs"
  by (simp add: exampleHost_def)

lemma words_a_b: "parseWords DEFAULT_SETTINGS (js ''a, b'') = [js ''a'', js ''b'']"
  by (simp add: tokenizing)

lemma cloud_a_b:
  "exampleCloud (js ''a, b'') =
     \<lparr>c_words = [js ''a'', js ''b''],
      c_colors = [''#0066cc'', ''#cc6600'', ''#cc0066'', ''#6600cc'', ''#00cc66''],
      c_containerWidth = 700, c_containerHeight = 500, c_minFontSize = 20,
      c_maxFontSize = 56, c_spacingConfig = SPACING_CONFIG Loose\<rparr>"
  by (simp add: cloud_setup words_a_b) (simp add: DEFAULT_SETTINGS_def)

lemma labels_a_b:
  "tempElements exampleHost (exampleCloud (js ''a, b'')) (Some (js ''a'')) =
     [\<lparr>w_width = 37, w_height = 56, w_fontSize = 48, w_color = Some ''#0066cc'',
       w_rotation = Some 0, w_word = js ''a'', w_isCentered = True\<rparr>,
      \<lparr>w_width = 20, w_height = 28, w_fontSize = 20, w_color = Some ''#0066cc'',
       w_rotation = Some 0, w_word = js ''b'', w_isCentered = False\<rparr>]"
  by (simp add: cloud_a_b labelling exampleHost_def enumerate_eq_zip)

lemma pass_a_b:
  "renderWords exampleHost (exampleCloud (js ''a, b'')) (Some (js ''a'')) =
     Inr \<lparr>placedElements =
            [\<lparr>centerX = 350, centerY = 250, width = 111 / 2, height = 84, rotation = Some 0\<rparr>,
             \<lparr>centerX = 470, centerY = 250, width = 20, height = 28, rotation = Some 0\<rparr>],
          children =
            [\<lparr>t_data = \<lparr>w_width = 37, w_height = 56, w_fontSize = 48,
                         w_color = Some ''#0066cc'', w_rotation = Some 0, w_word = js ''a'',
                         w_isCentered = True\<rparr>,
              t_left = 663 / 2, t_top = 222, t_scale = 6 / 5, t_zIndex = 50\<rparr>,
             \<lparr>t_data = \<lparr>w_width = 20, w_height = 28, w_fontSize = 20,
                         w_color = Some ''#0066cc'', w_rotation = Some 0, w_word = js ''b'',
                         w_isCentered = False\<rparr>,
              t_left = 460, t_top = 236, t_scale = 1, t_zIndex = 1\<rparr>]\<rparr>"
  unfolding renderWords_def labels_a_b
  by (simp add: exampleHost_def positionWords_def truthy_def enumerate_eq_zip placeWord_def
      spiralSearch.simps cloud_a_b surfaceCenterX_def surfaceCenterY_def maxRadius_def
      maxAttempts_def testRect_def withinMargins_def neededWidth_def neededHeight_def
      isQuarterTurn_def checkOverlap_def radiusStep_def Let_def)


theorem placed_rectangles_disjoint_witness:
  "\<not> checkOverlap 35
       \<lparr>centerX = 350, centerY = 250, width = 111 / 2, height = 84, rotation = Some 0\<rparr>
       \<lparr>centerX = 470, centerY = 250, width = 20, height = 28, rotation = Some 0\<rparr>
   \<and> footprint (35 / 2)
         \<lparr>centerX = 350, centerY = 250, width = 111 / 2, height = 84, rotation = Some 0\<rparr>
       \<inter> footprint (35 / 2)
         \<lparr>centerX = 470, centerY = 250, width = 20, height = 28, rotation = Some 0\<rparr> = {}"
  using placed_rectangles_disjoint [OF exampleHost_perm exampleCloud_def pass_a_b, of 0 1]
  by (simp add: cloud_a_b)

theorem unfocused_within_margins_witness:
  "footprint 0 \<lparr>centerX = 470, centerY = 250, width = 20, height = 28, rotation = Some 0\<rparr>
     \<subseteq> insideMargins (exampleCloud (js ''a, b''))"
  using unfocused_within_margins [OF pass_a_b, THEN conjunct2, rule_format, of 1] by simp

lemma words_long:
  "parseWords DEFAULT_SETTINGS (js ''supercalifragilisticexpialidocious'')
     = [js ''supercalifragilisticexpialidocious'']"
  by (simp add: tokenizing)

lemma cloud_long:
  "exampleCloud (js ''supercalifragilisticexpialidocious'') =
     \<lparr>c_words = [js ''supercalifragilisticexpialidocious''],
      c_colors = [''#0066cc'', ''#cc6600'', ''#cc0066'', ''#6600cc'', ''#00cc66''],
      c_containerWidth = 700, c_containerHeight = 500, c_minFontSize = 20,
      c_maxFontSize = 56, c_spacingConfig = SPACING_CONFIG Loose\<rparr>"
  by (simp add: cloud_setup words_long) (simp add: DEFAULT_SETTINGS_def)

lemma pass_long:
  "renderWords exampleHost (exampleCloud (js ''supercalifragilisticexpialidocious''))
       (Some (js ''supercalifragilisticexpialidocious'')) =
     Inr \<lparr>placedElements =
            [\<lparr>centerX = 350, centerY = 250, width = 1482, height = 84, rotation = Some 0\<rparr>],
          children =
            [\<lparr>t_data = \<lparr>w_width = 988, w_height = 56, w_fontSize = 48,
                         w_color = Some ''#0066cc'', w_rotation = Some 0,
                         w_word = js ''supercalifragilisticexpialidocious'', w_isCentered = True\<rparr>,
              t_left = - 144, t_top = 222, t_scale = 6 / 5, t_zIndex = 50\<rparr>]\<rparr>"
  unfolding renderWords_def
  by (simp add: cloud_long labelling exampleHost_def enumerate_eq_zip positionWords_def
      truthy_def placeWord_def surfaceCenterX_def surfaceCenterY_def Let_def)

text \<open>
  C2, as stated, fails for the focused label: with the default settings, a container
  700 wide and the single word of 34 letters (measured at 0.6 of the font size a letter)
  in focus, the label is 988 wide at the font size 48 and is put at the center whatever
  its width. Its span starts at \<open>-144\<close>, left of the container, and the point \<open>(0, 250)\<close>
  of the recorded rectangle's footprint lies outside the margins.
\<close>

theorem focused_label_outside_margins_counterexample:
  "renderWordCloud DEFAULT_SETTINGS exampleHost (js ''supercalifragilisticexpialidocious'') =
     WordCloud (Inr \<lparr>placedElements =
            [\<lparr>centerX = 350, centerY = 250, width = 1482, height = 84, rotation = Some 0\<rparr>],
          children =
            [\<lparr>t_data = \<lparr>w_width = 988, w_height = 56, w_fontSize = 48,
                         w_color = Some ''#0066cc'', w_rotation = Some 0,
                         w_word = js ''supercalifragilisticexpialidocious'', w_isCentered = True\<rparr>,
              t_left = - 144, t_top = 222, t_scale = 6 / 5, t_zIndex = 50\<rparr>]\<rparr>)
   \<and> (0, 250) \<in> footprint 0
         \<lparr>centerX = 350, centerY = 250, width = 1482, height = 84, rotation = Some 0\<rparr>
   \<and> (0, 250) \<notin> insideMargins (exampleCloud (js ''supercalifragilisticexpialidocious''))"
proof -
  have "pick [js ''supercalifragilisticexpialidocious''] (randomFocus exampleHost)
          = Some (js ''supercalifragilisticexpialidocious'')"
    by (simp add: pick_def exampleHost_def)
  then have run: "renderWordCloud DEFAULT_SETTINGS exampleHost (js ''supercalifragilisticexpialidocious'')
      = WordCloud (renderWords exampleHost (exampleCloud (js ''supercalifragilisticexpialidocious''))
          (Some (js ''supercalifragilisticexpialidocious'')))"
    by (simp add: renderWordCloud_def words_long exampleCloud_def)
  show ?thesis
    unfolding run pass_long
    by (simp add: cloud_long footprint_def insideMargins_def neededWidth_def
        neededHeight_def isQuarterTurn_def)
qed

subsection \<open>A label that never fits\<close>

lemma wide_label_unplaced:
  "fst (spiralSearch (exampleCloud (js ''a, b'')) placed
     \<lparr>w_width = 728, w_height = 28, w_fontSize = 20, w_color = Some ''#0066cc'',
      w_rotation = Some 0, w_word = replicate 60 97, w_isCentered = False\<rparr> r0 a0 n0) = None"
  by (rule spiralSearch_never_fits, rule too_wide_never_within)
     (simp add: cloud_a_b isQuarterTurn_def)

theorem spiral_search_bounded_witness:
  "fst (spiralSearch (exampleCloud (js ''a, b'')) []
     \<lparr>w_width = 728, w_height = 28, w_fontSize = 20, w_color = Some ''#0066cc'',
      w_rotation = Some 0, w_word = replicate 60 97, w_isCentered = False\<rparr> 120 0 0) = None
   \<and> snd (snd (spiralSearch (exampleCloud (js ''a, b'')) []
     \<lparr>w_width = 728, w_height = 28, w_fontSize = 20, w_color = Some ''#0066cc'',
      w_rotation = Some 0, w_word = replicate 60 97, w_isCentered = False\<rparr> 120 0 0)) \<le> 20000
   \<and> placeWord exampleHost (exampleCloud (js ''a, b'')) \<lparr>placedElements = [], children = []\<rparr>
       (0, \<lparr>w_width = 728, w_height = 28, w_fontSize = 20, w_color = Some ''#0066cc'',
      w_rotation = Some 0, w_word = replicate 60 97, w_isCentered = False\<rparr>)
     = \<lparr>placedElements = [], children = []\<rparr>"
proof -
  let ?temp = "\<lparr>w_width = 728, w_height = 28, w_fontSize = 20, w_color = Some ''#0066cc'',
      w_rotation = Some 0, w_word = replicate 60 97, w_isCentered = False\<rparr>"
  let ?st = "\<lparr>placedElements = [], children = []\<rparr>"
  obtain res r n where eq:
    "spiralSearch (exampleCloud (js ''a, b'')) (placedElements ?st) ?temp 120
        (randomAngle exampleHost 0 * pi * 2) 0 = (res, r, n)"
    by (metis prod_cases3)
  have angle: "randomAngle exampleHost 0 * pi * 2 = 0" by (simp add: exampleHost_def)
  from eq have "res = None"
    using wide_label_unplaced [of "[]" 120 0 0] by (simp add: angle)
  with spiral_search_bounded [OF eq] eq show ?thesis by (simp add: angle)
qed

subsection \<open>Labels and duplicates\<close>

lemma words_a_a_b: "parseWords DEFAULT_SETTINGS (js ''a, a, b'') = [js ''a'', js ''a'', js ''b'']"
  by (simp add: tokenizing)

lemma c_words_a_a_b: "c_words (exampleCloud (js ''a, a, b'')) = [js ''a'', js ''a'', js ''b'']"
  by (simp add: exampleCloud_def c_words_makeCloud words_a_a_b)

text \<open>
  C5, as stated, fails when the focus word occurs more than once: of the tokens
  \<open>a, a, b\<close> with \<open>a\<close> in focus, the pass makes two labels, one for \<open>a\<close> and one for \<open>b\<close>.
\<close>

theorem duplicate_focus_one_label_counterexample:
  "c_words (exampleCloud (js ''a, a, b'')) = [js ''a'', js ''a'', js ''b'']
   \<and> map w_word (tempElements exampleHost (exampleCloud (js ''a, a, b'')) (Some (js ''a'')))
       = [js ''a'', js ''b'']"
  by (simp add: c_words_a_a_b words_of_tempElements shuffledWords_def exampleHost_def js_facts)

theorem labels_of_a_pass_witness:
  "mset (map w_word (tempElements exampleHost (exampleCloud (js ''a, a, b'')) None))
     = mset [js ''a'', js ''a'', js ''b'']
   \<and> map w_word (tempElements exampleHost (exampleCloud (js ''a, a, b'')) (Some (js ''a'')))
     = [js ''a'', js ''b'']
   \<and> map w_isCentered (tempElements exampleHost (exampleCloud (js ''a, a, b'')) (Some (js ''a'')))
     = [True, False]"
proof -
  have 1: "mset (map w_word (tempElements exampleHost (exampleCloud (js ''a, a, b'')) None))
     = mset [js ''a'', js ''a'', js ''b'']"
    using labels_of_a_pass [OF exampleHost_perm, of None "exampleCloud (js ''a, a, b'')"]
    by (simp add: truthy_def c_words_a_a_b)
  have "map w_word (tempElements exampleHost (exampleCloud (js ''a, a, b'')) (Some (js ''a'')))
          = js ''a'' # shuffle exampleHost (filter (\<lambda>w. w \<noteq> js ''a'') (c_words (exampleCloud (js ''a, a, b''))))
       \<and> map w_isCentered (tempElements exampleHost (exampleCloud (js ''a, a, b'')) (Some (js ''a'')))
          = True # replicate (length (filter (\<lambda>w. w \<noteq> js ''a'') (c_words (exampleCloud (js ''a, a, b''))))) False"
    using labels_of_a_pass [OF exampleHost_perm, of "Some (js ''a'')" "exampleCloud (js ''a, a, b'')"]
    by (simp add: js_facts)
  then show ?thesis using 1 by (simp add: c_words_a_a_b exampleHost_def js_facts)
qed

subsection \<open>No token\<close>

theorem empty_input_placeholder_witness:
  "rawWords DEFAULT_SETTINGS (js '' , '') = []
   \<and> renderWordCloud DEFAULT_SETTINGS exampleHost (js '' , '')
       = Paragraph (js ''No words provided. Add ,-separated words.'')
   \<and> labelsPlaced (renderWordCloud DEFAULT_SETTINGS exampleHost (js '' , '')) = 0"
proof -
  have 1: "rawWords DEFAULT_SETTINGS (js '' , '') = []"
    by (simp add: tokenizing)
  from empty_input_placeholder [OF 1, of exampleHost] 1 show ?thesis
    by (simp add: effectiveSeparator_def DEFAULT_SETTINGS_def js_def)
qed

subsection \<open>The focused label\<close>

lemma foldl_placeWord_extends:
  "\<exists>ps cs. placedElements (foldl (placeWord h cl) st its) = placedElements st @ ps
         \<and> children (foldl (placeWord h cl) st its) = children st @ cs"
proof (rule foldl_invariant [where P = "\<lambda>s::PassState. \<exists>ps cs.
          placedElements s = placedElements st @ ps \<and> children s = children st @ cs"])
  show "\<exists>ps cs. placedElements st = placedElements st @ ps \<and> children st = children st @ cs"
    by simp
next
  fix s :: PassState and x
  assume "\<exists>ps cs. placedElements s = placedElements st @ ps \<and> children s = children st @ cs"
  then show "\<exists>ps cs. placedElements (placeWord h cl s x) = placedElements st @ ps
                   \<and> children (placeWord h cl s x) = children st @ cs"
    by (cases rule: placeWord_cases [of x h cl s]) auto
qed

lemma pick_single: "0 \<le> r \<Longrightarrow> r < 1 \<Longrightarrow> pick [x] r = Some x"
  by (simp add: pick_def Let_def floor_eq_iff [THEN iffD2])

text \<open>
  With a canvas context, a pass with a focus word places the focused label first: its
  span is centered on the center of the surface, its rotation is 0, and the rectangle
  recorded for it has the measured width and height of the label times 1.5.
\<close>

lemma focused_label_centered:
  assumes "measureText h = Some m" and "c \<noteq> []"
    and "0 \<le> randomRotation h 0" and "randomRotation h 0 < 1"
  shows "\<exists>st t ts r rs. renderWords h cl (Some c) = Inr st
       \<and> children st = t # ts \<and> placedElements st = r # rs
       \<and> w_word (t_data t) = c \<and> w_isCentered (t_data t) \<and> w_rotation (t_data t) = Some 0
       \<and> t_left t + w_width (t_data t) / 2 = real_of_int (c_containerWidth cl) / 2
       \<and> t_top t + w_height (t_data t) / 2 = real_of_int (c_containerHeight cl) / 2
       \<and> r = \<lparr>centerX = real_of_int (c_containerWidth cl) / 2,
              centerY = real_of_int (c_containerHeight cl) / 2,
              width = w_width (t_data t) * 1.5, height = w_height (t_data t) * 1.5,
              rotation = Some 0\<rparr>"
proof -
  define t0 where "t0 = makeWordData h cl (Some c) (0, c)"
  define rest where "rest = map (makeWordData h cl (Some c))
           (enumerate 1 (shuffle h (filter (\<lambda>w. w \<noteq> c) (c_words cl))))"
  define st1 where "st1 = placeWord h cl \<lparr>placedElements = [], children = []\<rparr> (0, t0)"
  have t0: "w_word t0 = c" "w_isCentered t0" "w_rotation t0 = Some 0"
    using assms(3,4) by (simp_all add: t0_def makeWordData_def Let_def pick_single)
  have temps: "tempElements h cl (Some c) = t0 # rest"
    using assms(2) by (simp add: tempElements_focus t0_def rest_def)
  have st1: "st1 = \<lparr>placedElements =
        [\<lparr>centerX = surfaceCenterX cl, centerY = surfaceCenterY cl,
          width = w_width t0 * 1.5, height = w_height t0 * 1.5, rotation = Some 0\<rparr>],
      children =
        [\<lparr>t_data = t0, t_left = surfaceCenterX cl - w_width t0 / 2,
          t_top = surfaceCenterY cl - w_height t0 / 2, t_scale = 1.2, t_zIndex = 50\<rparr>]\<rparr>"
    using t0 by (simp add: st1_def placeWord_centered)
  have run: "renderWords h cl (Some c) = Inr (foldl (placeWord h cl) st1 (enumerate 1 rest))"
    using assms(1,2) by (simp add: renderWords_def positionWords_def truthy_def temps st1_def)
  obtain ps cs where
    "placedElements (foldl (placeWord h cl) st1 (enumerate 1 rest)) = placedElements st1 @ ps"
    "children (foldl (placeWord h cl) st1 (enumerate 1 rest)) = children st1 @ cs"
    using foldl_placeWord_extends [of h cl st1 "enumerate 1 rest"] by blast
  with run t0 show ?thesis
    by (simp add: st1 surfaceCenterX_def surfaceCenterY_def)
qed

text \<open>
  C3 fails on a host without a canvas context. With the default settings and the source
  \<open>apple, banana, orange\<close>, the first pass (and any pass, such as the one with \<open>apple\<close> in
  focus) ends in the \<^verbatim>\<open>ReferenceError\<close> of the scheduled callback: no label is placed,
  the focused one included.
\<close>

theorem focused_label_lost_without_canvas:
  "renderWordCloud DEFAULT_SETTINGS noCanvasHost (js ''apple, banana, orange'')
     = WordCloud (Inl ReferenceError)
   \<and> labelsPlaced (renderWordCloud DEFAULT_SETTINGS noCanvasHost (js ''apple, banana, orange'')) = 0
   \<and> renderWords noCanvasHost
         (makeCloud DEFAULT_SETTINGS noCanvasHost
            (parseWords DEFAULT_SETTINGS (js ''apple, banana, orange'')))
         (Some (js ''apple'')) = Inl ReferenceError"
proof -
  have "parseWords DEFAULT_SETTINGS (js ''apple, banana, orange'') = [js ''apple'', js ''banana'', js ''orange'']"
    by (simp add: tokenizing)
  then show ?thesis
    by (simp add: renderWordCloud_def renderWords_def noCanvasHost_def exampleHost_def)
qed

lemma focused_label_centered_example:
  "\<exists>st t ts r rs.
      renderWords exampleHost (exampleCloud (js ''apple, banana, orange'')) (Some (js ''apple'')) = Inr st
    \<and> children st = t # ts \<and> placedElements st = r # rs
    \<and> w_word (t_data t) = js ''apple'' \<and> w_rotation (t_data t) = Some 0
    \<and> r = \<lparr>centerX = 350, centerY = 250, width = w_width (t_data t) * 1.5,
           height = w_height (t_data t) * 1.5, rotation = Some 0\<rparr>"
proof -
  have "measureText exampleHost
          = Some (\<lambda>w fontSize. real (length w) * real_of_int fontSize * 0.6)"
    "0 \<le> randomRotation exampleHost 0" "randomRotation exampleHost 0 < 1"
    by (simp_all add: exampleHost_def)
  from focused_label_centered [OF this(1) _ this(2,3), of "js ''apple''"
      "exampleCloud (js ''apple, banana, orange'')"]
  obtain st t ts r rs where
    "renderWords exampleHost (exampleCloud (js ''apple, banana, orange'')) (Some (js ''apple'')) = Inr st"
    "children st = t # ts" "placedElements st = r # rs"
    "w_word (t_data t) = js ''apple''" "w_rotation (t_data t) = Some 0"
    "r = \<lparr>centerX = real_of_int (c_containerWidth (exampleCloud (js ''apple, banana, orange''))) / 2,
         centerY = real_of_int (c_containerHeight (exampleCloud (js ''apple, banana, orange''))) / 2,
         width = w_width (t_data t) * 1.5, height = w_height (t_data t) * 1.5,
         rotation = Some 0\<rparr>"
    by (auto simp: js_facts)
  moreover have "c_containerWidth (exampleCloud (js ''apple, banana, orange'')) = 700"
    "c_containerHeight (exampleCloud (js ''apple, banana, orange'')) = 500"
    by (simp_all add: cloud_setup)
  ultimately show ?thesis by simp
qed

end
